theory Spec2Isabelle
  imports Complex_Main "HOL-Library.AList" "HOL-Library.Product_Lexorder"
begin

section \<open>Conventions of the embedding\<close>

text \<open>
  The two Python modules embedded here are \<^verbatim>\<open>aprendizado_avancado.py\<close> (the rule miner)
  and \<^verbatim>\<open>probabilidade_cartoes_v2.py\<close> (distributions, calibrator and the \<open>\<lambda>\<close> pipeline).

  \<^item> A Python \<^verbatim>\<open>float\<close> is a \<^typ>\<open>real\<close>: arithmetic is exact, there is no rounding,
    no NaN and no infinity. The calls of the \<^verbatim>\<open>math\<close> module that can raise
    (\<^verbatim>\<open>math.lgamma\<close>, \<^verbatim>\<open>math.exp\<close>, float powers, a float divided by a
    huge int) are parameters that return an error or a value.
  \<^item> A Python \<^verbatim>\<open>int\<close> is an \<^typ>\<open>int\<close>; a count that is a \<^verbatim>\<open>len\<close> is a \<^typ>\<open>nat\<close>.
  \<^item> A Python \<^verbatim>\<open>str\<close> is a \<^typ>\<open>string\<close> holding its UTF-8 bytes; only equality,
    membership and substring tests are taken on it, and these agree with the tests on
    code points. \<^verbatim>\<open>str.lower\<close> is a parameter.
  \<^item> A Python \<^verbatim>\<open>dict\<close> is an association list in insertion order with distinct keys;
    \<^const>\<open>AList.update\<close> is the assignment \<^verbatim>\<open>d[k] = v\<close>.
  \<^item> A raised exception is the \<open>Inl\<close> of a sum.
\<close>

text \<open>
  \<open>erro_mat\<close> holds the two exceptions the \<^verbatim>\<open>math\<close> module and float arithmetic raise;
  \<open>erro\<close> adds the exceptions of indexing, of dictionary lookup and of division.
\<close>

datatype erro_mat = ValueError | OverflowError

datatype erro = Mat erro_mat | IndexError | KeyError | ZeroDivisionError

section \<open>Rule miner: data\<close>

subsection \<open>Configuration constants\<close>

definition MIN_AMOSTRAS_REGRA :: nat where
  "MIN_AMOSTRAS_REGRA = 8"

definition THRESHOLD_OURO :: real where
  "THRESHOLD_OURO = 75"

definition THRESHOLD_PLATINA :: real where
  "THRESHOLD_PLATINA = 85"

definition THRESHOLD_DIAMANTE :: real where
  "THRESHOLD_DIAMANTE = 90"

text \<open>The excluded market is \<^verbatim>\<open>Under 5.5 Cartoes\<close> written with o-tilde, the bytes C3 B5.\<close>

definition MERCADOS_EXCLUIDOS_REGRAS :: "string list" where
  "MERCADOS_EXCLUIDOS_REGRAS = [''Under 5.5 Cart'' @ [CHR 0xC3, CHR 0xB5] @ ''es'']"

definition FATORES_ANALISE :: "string list" where
  "FATORES_ANALISE =
    [''faixa_lambda'', ''perfil_arbitro'', ''tipo_competicao'', ''faixa_qualidade'',
     ''variancia'', ''faixa_prob'', ''tendencia_recente'', ''regiao_competicao'',
     ''faixa_delta_arbitro'', ''faixa_delta_times'', ''faixa_peso_shrinkage'',
     ''faixa_media_arb_5j'', ''faixa_amplitude'', ''completude_dados'',
     ''faixa_soma_times'']"

subsection \<open>Records of the learning store\<close>

record DadosPartidaAprendizado =
  data :: string
  time_mandante :: string
  time_visitante :: string
  competicao :: string
  lambda_shrunk :: real
  qualidade_score :: real
  media_arbitro_5j :: real
  media_arbitro_10j :: real
  intervalo_amplitude :: int
  perfil_arbitro :: string
  modelo :: string
  delta_arbitro :: real
  delta_times :: real
  peso_shrinkage :: real
  soma_cartoes_times :: real
  completude_arbitro :: real
  lambda_raw :: real
  faixa_lambda :: string
  tipo_competicao :: string
  faixa_qualidade :: string
  variancia :: string
  tendencia_recente :: string
  regiao_competicao :: string
  faixa_delta_arbitro :: string
  faixa_delta_times :: string
  faixa_peso_shrinkage :: string
  faixa_media_arb_5j :: string
  faixa_amplitude :: string
  completude_dados :: string
  faixa_soma_times :: string

record ResultadoMercadoAprendizado =
  mercado :: string
  tipo :: string
  linha :: real
  p_raw :: real
  p_calibrado :: real
  eh_destaque :: bool
  acertou :: bool
  cartoes_reais :: int
  faixa_prob :: string

record RegistroAprendizado =
  partida :: DadosPartidaAprendizado
  resultado :: ResultadoMercadoAprendizado
  timestamp :: string

text \<open>
  \<^verbatim>\<open>RegraDeOuro\<close>. The field \<^verbatim>\<open>id\<close> is \<open>id_regra\<close> and the field \<^verbatim>\<open>mercado\<close> is
  \<open>mercado_regra\<close> (the record of the market result above already has \<open>mercado\<close>).
\<close>

record RegraDeOuro =
  id_regra :: int
  mercado_regra :: string
  condicoes :: "(string \<times> string) list"
  total_amostras :: nat
  acertos :: nat
  taxa_acerto :: real
  nivel :: string
  cor :: string
  descricao :: string

subsection \<open>Attribute lookup by factor name\<close>

text \<open>
  \<^verbatim>\<open>getattr(r.partida, fator, None)\<close> for the names the miner passes, the elements of
  \<^const>\<open>FATORES_ANALISE\<close>. The dataclass \<^verbatim>\<open>DadosPartidaAprendizado\<close> declares fourteen of
  them; \<^verbatim>\<open>faixa_prob\<close> is a field of the market result, not of the match snapshot, and
  nothing in the repository assigns it on a snapshot, so the lookup gives the default
  \<^verbatim>\<open>None\<close>.
\<close>

definition getattr_partida :: "DadosPartidaAprendizado \<Rightarrow> string \<Rightarrow> string option" where
  "getattr_partida p fator =
    (if fator = ''faixa_lambda'' then Some (faixa_lambda p)
     else if fator = ''perfil_arbitro'' then Some (perfil_arbitro p)
     else if fator = ''tipo_competicao'' then Some (tipo_competicao p)
     else if fator = ''faixa_qualidade'' then Some (faixa_qualidade p)
     else if fator = ''variancia'' then Some (variancia p)
     else if fator = ''tendencia_recente'' then Some (tendencia_recente p)
     else if fator = ''regiao_competicao'' then Some (regiao_competicao p)
     else if fator = ''faixa_delta_arbitro'' then Some (faixa_delta_arbitro p)
     else if fator = ''faixa_delta_times'' then Some (faixa_delta_times p)
     else if fator = ''faixa_peso_shrinkage'' then Some (faixa_peso_shrinkage p)
     else if fator = ''faixa_media_arb_5j'' then Some (faixa_media_arb_5j p)
     else if fator = ''faixa_amplitude'' then Some (faixa_amplitude p)
     else if fator = ''completude_dados'' then Some (completude_dados p)
     else if fator = ''faixa_soma_times'' then Some (faixa_soma_times p)
     else None)"

section \<open>Rule miner: operations\<close>

subsection \<open>\<^verbatim>\<open>itertools.combinations\<close> and \<^verbatim>\<open>defaultdict(list)\<close>\<close>

fun combinations :: "'a list \<Rightarrow> nat \<Rightarrow> 'a list list" where
  "combinations xs 0 = [[]]"
| "combinations [] (Suc n) = []"
| "combinations (x # xs) (Suc n) = map ((#) x) (combinations xs n) @ combinations xs (Suc n)"

text \<open>\<^verbatim>\<open>grupos[chave].append(r)\<close> on a \<^verbatim>\<open>defaultdict(list)\<close>.\<close>

definition grupos_append :: "('k \<times> 'v list) list \<Rightarrow> 'k \<Rightarrow> 'v \<Rightarrow> ('k \<times> 'v list) list" where
  "grupos_append grupos chave r =
    AList.update chave (case map_of grupos chave of None \<Rightarrow> [r] | Some g \<Rightarrow> g @ [r]) grupos"

subsection \<open>\<^verbatim>\<open>MotorAprendizado._testar_combinacoes\<close>\<close>

text \<open>The inner loop over the selected factors, which breaks at the first missing value.\<close>

fun extrair_valores :: "DadosPartidaAprendizado \<Rightarrow> string list \<Rightarrow> (string \<times> string) list" where
  "extrair_valores p [] = []"
| "extrair_valores p (fator # fatores) =
    (case getattr_partida p fator of
       None \<Rightarrow> []
     | Some valor \<Rightarrow>
         if valor = [] \<or> valor = ''Desconhecido'' then []
         else (fator, valor) # extrair_valores p fatores)"

text \<open>The loop over the records that fills \<^verbatim>\<open>grupos\<close> for one combination of factors.\<close>

fun agrupar ::
  "nat \<Rightarrow> string list \<Rightarrow> ((string \<times> string) list \<times> RegistroAprendizado list) list \<Rightarrow>
   RegistroAprendizado list \<Rightarrow> ((string \<times> string) list \<times> RegistroAprendizado list) list" where
  "agrupar n_fatores fatores grupos [] = grupos"
| "agrupar n_fatores fatores grupos (r # registros) =
    (let valores = extrair_valores (partida r) fatores
     in if length valores = n_fatores
        then agrupar n_fatores fatores (grupos_append grupos valores r) registros
        else agrupar n_fatores fatores grupos registros)"

text \<open>The body of the loop over the groups: no rule, or the rule of the group.\<close>

definition analisar_grupo ::
  "string \<Rightarrow> (string \<times> string) list \<times> RegistroAprendizado list \<Rightarrow> RegraDeOuro list" where
  "analisar_grupo m cg =
    (let chave = fst cg; grupo = snd cg
     in if length grupo < MIN_AMOSTRAS_REGRA then []
        else
          let n_acertos = length (filter (\<lambda>r. acertou (resultado r)) grupo);
              taxa = real n_acertos / real (length grupo) * 100
          in if taxa \<ge> THRESHOLD_OURO then
               (let nc = (if taxa \<ge> THRESHOLD_DIAMANTE then (''Diamante'', ''#b9f2ff'')
                          else if taxa \<ge> THRESHOLD_PLATINA then (''Platina'', ''#e5e4e2'')
                          else (''Ouro'', ''#ffd700''))
                in [\<lparr>id_regra = 0, mercado_regra = m, condicoes = chave,
                     total_amostras = length grupo, acertos = n_acertos, taxa_acerto = taxa,
                     nivel = fst nc, cor = snd nc, descricao = []\<rparr>])
             else [])"

definition testar_combinacoes ::
  "string \<Rightarrow> RegistroAprendizado list \<Rightarrow> nat \<Rightarrow> RegraDeOuro list" where
  "testar_combinacoes m registros n_fatores =
    concat (map (\<lambda>fatores. concat (map (analisar_grupo m)
                                  (agrupar n_fatores fatores [] registros)))
                (combinations FATORES_ANALISE n_fatores))"

subsection \<open>\<^verbatim>\<open>MotorAprendizado._eh_subconjunto\<close> and \<^verbatim>\<open>_filtrar_redundantes\<close>\<close>

definition eh_subconjunto :: "(string \<times> string) list \<Rightarrow> (string \<times> string) list \<Rightarrow> bool" where
  "eh_subconjunto menor maior = list_all (\<lambda>(k, v). map_of maior k = Some v) menor"

text \<open>
  The loop over the sorted rules: \<open>filtradas\<close> is the list accepted so far, and the rule
  at hand is tested as \<^verbatim>\<open>menor\<close> against every accepted rule as \<^verbatim>\<open>maior\<close>.
\<close>

fun filtrar_laco :: "RegraDeOuro list \<Rightarrow> RegraDeOuro list \<Rightarrow> RegraDeOuro list" where
  "filtrar_laco filtradas [] = filtradas"
| "filtrar_laco filtradas (regra # regras) =
    (if list_ex (\<lambda>aceita. eh_subconjunto (condicoes regra) (condicoes aceita)) filtradas
     then filtrar_laco filtradas regras
     else filtrar_laco (filtradas @ [regra]) regras)"

text \<open>\<^verbatim>\<open>regras.sort(key=lambda r: -len(r.condicoes))\<close> is a stable sort, as \<^const>\<open>sort_key\<close> is.\<close>

definition filtrar_redundantes :: "RegraDeOuro list \<Rightarrow> RegraDeOuro list" where
  "filtrar_redundantes regras =
    (if regras = [] then []
     else filtrar_laco [] (sort_key (\<lambda>r. - int (length (condicoes r))) regras))"

subsection \<open>\<^verbatim>\<open>RegraDeOuro.gerar_descricao\<close>\<close>

text \<open>
  The display names hold letters outside ASCII: small lambda is CE BB, A-acute is C3 81,
  a-circumflex is C3 A2, e-circumflex is C3 AA, a-tilde is C3 A3.
\<close>

definition mapa_nomes :: "(string \<times> string) list" where
  "mapa_nomes =
    [(''faixa_lambda'', [CHR 0xCE, CHR 0xBB]),
     (''perfil_arbitro'', [CHR 0xC3, CHR 0x81] @ ''rbitro''),
     (''tipo_competicao'', ''Tipo''),
     (''faixa_qualidade'', ''Qualidade''),
     (''variancia'', ''Vari'' @ [CHR 0xC3, CHR 0xA2] @ ''ncia''),
     (''faixa_prob'', ''Prob''),
     (''tendencia_recente'', ''Tend'' @ [CHR 0xC3, CHR 0xAA] @ ''ncia''),
     (''regiao_competicao'', ''Regi'' @ [CHR 0xC3, CHR 0xA3] @ ''o'')]"

fun join :: "string \<Rightarrow> string list \<Rightarrow> string" where
  "join sep [] = []"
| "join sep [x] = x"
| "join sep (x # y # ys) = x @ sep @ join sep (y # ys)"

definition gerar_descricao :: "RegraDeOuro \<Rightarrow> RegraDeOuro" where
  "gerar_descricao regra =
    regra\<lparr>descricao :=
      join '' + '' (map (\<lambda>(fator, valor).
          (case map_of mapa_nomes fator of None \<Rightarrow> fator | Some nome \<Rightarrow> nome) @ ''='' @ valor)
        (condicoes regra))\<rparr>"

subsection \<open>\<^verbatim>\<open>MotorAprendizado.descobrir_regras\<close>\<close>

text \<open>The loop that groups the stored records by market.\<close>

fun agrupar_por_mercado ::
  "(string \<times> RegistroAprendizado list) list \<Rightarrow> RegistroAprendizado list \<Rightarrow>
   (string \<times> RegistroAprendizado list) list" where
  "agrupar_por_mercado por_mercado [] = por_mercado"
| "agrupar_por_mercado por_mercado (r # registros) =
    agrupar_por_mercado (grupos_append por_mercado (mercado (resultado r)) r) registros"

text \<open>The body of the loop over the markets: the rules this market adds.\<close>

definition regras_do_mercado :: "string \<times> RegistroAprendizado list \<Rightarrow> RegraDeOuro list" where
  "regras_do_mercado mr =
    (let m = fst mr; registros = snd mr
     in if m \<in> set MERCADOS_EXCLUIDOS_REGRAS then []
        else if length registros < MIN_AMOSTRAS_REGRA then []
        else filtrar_redundantes
               (concat (map (testar_combinacoes m registros) [1, 2, 3])))"

text \<open>\<^verbatim>\<open>for i, regra in enumerate(todas_regras, 1)\<close>: number and describe.\<close>

fun atribuir_ids :: "int \<Rightarrow> RegraDeOuro list \<Rightarrow> RegraDeOuro list" where
  "atribuir_ids i [] = []"
| "atribuir_ids i (regra # regras) =
    gerar_descricao (regra\<lparr>id_regra := i\<rparr>) # atribuir_ids (i + 1) regras"

definition descobrir_regras :: "RegistroAprendizado list \<Rightarrow> RegraDeOuro list" where
  "descobrir_regras registros =
    (let por_mercado = agrupar_por_mercado [] registros;
         todas_regras = concat (map regras_do_mercado por_mercado)
     in atribuir_ids 1
          (sort_key (\<lambda>r. (- taxa_acerto r, - int (total_amostras r))) todas_regras))"

subsection \<open>The filter as the specification words it\<close>

text \<open>
  The specification's sentence on redundancy, taken literally: after the same sort, a rule
  is discarded when the condition set of an already accepted rule is a subset of its own.
  Only the two arguments of the subset test are exchanged with respect to
  \<^const>\<open>filtrar_laco\<close>.
\<close>

fun filtrar_laco_spec :: "RegraDeOuro list \<Rightarrow> RegraDeOuro list \<Rightarrow> RegraDeOuro list" where
  "filtrar_laco_spec filtradas [] = filtradas"
| "filtrar_laco_spec filtradas (regra # regras) =
    (if list_ex (\<lambda>aceita. eh_subconjunto (condicoes aceita) (condicoes regra)) filtradas
     then filtrar_laco_spec filtradas regras
     else filtrar_laco_spec (filtradas @ [regra]) regras)"

definition filtrar_redundantes_spec :: "RegraDeOuro list \<Rightarrow> RegraDeOuro list" where
  "filtrar_redundantes_spec regras =
    (if regras = [] then []
     else filtrar_laco_spec [] (sort_key (\<lambda>r. - int (length (condicoes r))) regras))"

subsection \<open>Concrete inputs of the miner\<close>

text \<open>
  The two rules of the redundancy example: \<open>A = {f1: v1}\<close> with support 20 and hit rate 80,
  \<open>B = {f1: v1, f2: v2}\<close> with support 10 and hit rate 85. The filter reads only the
  conditions; the other fields are filled as the example gives them.
\<close>

definition regra_A :: RegraDeOuro where
  "regra_A = \<lparr>id_regra = 0, mercado_regra = ''Over 3.5'', condicoes = [(''f1'', ''v1'')],
     total_amostras = 20, acertos = 16, taxa_acerto = 80, nivel = ''Ouro'', cor = ''#ffd700'',
     descricao = []\<rparr>"

definition regra_B :: RegraDeOuro where
  "regra_B = \<lparr>id_regra = 0, mercado_regra = ''Over 3.5'',
     condicoes = [(''f1'', ''v1''), (''f2'', ''v2'')],
     total_amostras = 10, acertos = 8, taxa_acerto = 85, nivel = ''Platina'', cor = ''#e5e4e2'',
     descricao = []\<rparr>"

text \<open>
  A synthetic record: the only populated factor of the snapshot is
  \<open>perfil_arbitro = Rigoroso\<close>, every derived factor keeps its default, the empty string.
\<close>

definition partida_sintetica :: DadosPartidaAprendizado where
  "partida_sintetica =
    \<lparr>data = ''2025-01-01'', time_mandante = ''M'', time_visitante = ''V'', competicao = ''L'',
     lambda_shrunk = 5, qualidade_score = 80, media_arbitro_5j = 5, media_arbitro_10j = 5,
     intervalo_amplitude = 5, perfil_arbitro = ''Rigoroso'', modelo = ''Negative Binomial'',
     delta_arbitro = 0, delta_times = 0, peso_shrinkage = 1 / 2, soma_cartoes_times = 0,
     completude_arbitro = 0, lambda_raw = 0,
     faixa_lambda = [], tipo_competicao = [], faixa_qualidade = [], variancia = [],
     tendencia_recente = [], regiao_competicao = [], faixa_delta_arbitro = [],
     faixa_delta_times = [], faixa_peso_shrinkage = [], faixa_media_arb_5j = [],
     faixa_amplitude = [], completude_dados = [], faixa_soma_times = []\<rparr>"

definition registro_sintetico :: "bool \<Rightarrow> RegistroAprendizado" where
  "registro_sintetico hit =
    \<lparr>partida = partida_sintetica,
     resultado = \<lparr>mercado = ''Over 3.5 Cart'' @ [CHR 0xC3, CHR 0xB5] @ ''es'', tipo = ''over'',
       linha = 7 / 2, p_raw = 60, p_calibrado = 60, eh_destaque = False, acertou = hit,
       cartoes_reais = (if hit then 4 else 3), faixa_prob = ''60-65''\<rparr>,
     timestamp = ''t''\<rparr>"

definition corpus_10 :: "RegistroAprendizado list" where
  "corpus_10 = replicate 8 (registro_sintetico True) @ replicate 2 (registro_sintetico False)"




section \<open>Distributions\<close>

subsection \<open>Float primitives that can raise\<close>

text \<open>
  \<^verbatim>\<open>math.exp\<close>, \<^verbatim>\<open>math.lgamma\<close>, the float power \<^verbatim>\<open>**\<close> and the conversion of an
  \<^verbatim>\<open>int\<close> operand to \<^verbatim>\<open>float\<close> in mixed arithmetic raise \<^verbatim>\<open>OverflowError\<close> or
  \<^verbatim>\<open>ValueError\<close> on some arguments. What they return, and which integers are too
  large, are the fields of one parameter, so every property below holds whatever they do.
\<close>

record matematica =
  math_exp :: "real \<Rightarrow> erro_mat + real"
  math_lgamma :: "real \<Rightarrow> erro_mat + real"
  float_pow :: "real \<Rightarrow> real \<Rightarrow> erro_mat + real"
  int_estoura :: "int \<Rightarrow> bool"

text \<open>
  An \<^verbatim>\<open>int\<close> operand of mixed arithmetic becomes a \<^verbatim>\<open>float\<close>: the same number, or
  \<^verbatim>\<open>OverflowError\<close> when it is too large.
\<close>

definition float_de_int :: "matematica \<Rightarrow> int \<Rightarrow> erro_mat + real" where
  "float_de_int M i = (if int_estoura M i then Inl OverflowError else Inr (real_of_int i))"

text \<open>Sequencing of a computation that may raise.\<close>

definition entao :: "'e + 'a \<Rightarrow> ('a \<Rightarrow> 'e + 'b) \<Rightarrow> 'e + 'b" where
  "entao x f = (case x of Inl e \<Rightarrow> Inl e | Inr v \<Rightarrow> f v)"

text \<open>An exception of the math primitives seen by a caller that does not catch it.\<close>

definition propagar :: "erro_mat + 'a \<Rightarrow> erro + 'a" where
  "propagar x = (case x of Inl e \<Rightarrow> Inl (Mat e) | Inr v \<Rightarrow> Inr v)"

text \<open>\<^verbatim>\<open>int(x)\<close> on a float truncates towards zero.\<close>

definition py_int :: "real \<Rightarrow> int" where
  "py_int x = (if 0 \<le> x then \<lfloor>x\<rfloor> else \<lceil>x\<rceil>)"

subsection \<open>\<^verbatim>\<open>calcular_fatorial\<close>, \<^verbatim>\<open>poisson_pmf\<close>, \<^verbatim>\<open>negative_binomial_pmf\<close>\<close>

text \<open>The loop \<^verbatim>\<open>for i in range(2, n + 1): resultado *= i\<close>.\<close>

definition calcular_fatorial :: "int \<Rightarrow> int" where
  "calcular_fatorial n = (if n \<le> 1 then 1 else fold (\<lambda>i resultado. resultado * i) [2..n] 1)"

definition poisson_pmf :: "matematica \<Rightarrow> int \<Rightarrow> real \<Rightarrow> erro + real" where
  "poisson_pmf M k lambda =
    (if lambda \<le> 0 then Inr (if k = 0 then 1 else 0)
     else if k < 0 then Inr 0
     else propagar
       (entao (math_exp M (- lambda)) (\<lambda>e.
        entao (float_de_int M k) (\<lambda>kf.
        entao (float_pow M lambda kf) (\<lambda>pw.
        entao (float_de_int M (calcular_fatorial k)) (\<lambda>fat.
        Inr ((e * pw) / fat)))))))"

text \<open>The body of the \<^verbatim>\<open>try\<close> block of \<^verbatim>\<open>negative_binomial_pmf\<close>.\<close>

definition negbin_corpo :: "matematica \<Rightarrow> int \<Rightarrow> real \<Rightarrow> real \<Rightarrow> erro_mat + real" where
  "negbin_corpo M k r p =
    entao (float_de_int M k) (\<lambda>kf.
    entao (math_lgamma M (kf + r)) (\<lambda>lg1.
    entao (math_lgamma M r) (\<lambda>lg2.
    entao (float_de_int M (k + 1)) (\<lambda>k1.
    entao (math_lgamma M k1) (\<lambda>lg3.
    entao (math_exp M (lg1 - lg2 - lg3)) (\<lambda>coef.
    entao (float_pow M p r) (\<lambda>pr.
    entao (float_pow M (1 - p) kf) (\<lambda>qk.
    Inr (max 0 (min 1 (coef * pr * qk)))))))))))"

text \<open>
  \<^verbatim>\<open>except (ValueError, OverflowError): return 0.0\<close> catches both constructors of
  \<^typ>\<open>erro_mat\<close>.
\<close>

definition negative_binomial_pmf :: "matematica \<Rightarrow> int \<Rightarrow> real \<Rightarrow> real \<Rightarrow> erro + real" where
  "negative_binomial_pmf M k r p =
    (if r \<le> 0 \<or> p \<le> 0 \<or> p \<ge> 1 \<or> k < 0 then Inr 0
     else (case negbin_corpo M k r p of
             Inl ValueError \<Rightarrow> Inr 0
           | Inl OverflowError \<Rightarrow> Inr 0
           | Inr prob \<Rightarrow> Inr prob))"

subsection \<open>\<^verbatim>\<open>converter_lambda_para_negbin\<close>, \<^verbatim>\<open>calcular_cdf\<close>, \<^verbatim>\<open>calcular_percentis\<close>\<close>

definition converter_lambda_para_negbin :: "real \<Rightarrow> real \<Rightarrow> real \<times> real" where
  "converter_lambda_para_negbin lambda r =
    (if lambda \<le> 0 then (r, 999 / 1000)
     else (r, max (1 / 1000) (min (999 / 1000) (r / (r + lambda)))))"

text \<open>The loop \<^verbatim>\<open>for i in range(...): prob_acum += pmf(i)\<close>, stopped by an exception.\<close>

fun acumular :: "(int \<Rightarrow> erro + real) \<Rightarrow> real \<Rightarrow> int list \<Rightarrow> erro + real" where
  "acumular pmf prob_acum [] = Inr prob_acum"
| "acumular pmf prob_acum (i # is) =
    (case pmf i of Inl e \<Rightarrow> Inl e | Inr v \<Rightarrow> acumular pmf (prob_acum + v) is)"

definition calcular_cdf :: "matematica \<Rightarrow> int \<Rightarrow> real \<Rightarrow> real \<Rightarrow> bool \<Rightarrow> erro + real" where
  "calcular_cdf M k_max lambda r usar_negbin =
    entao
      (if usar_negbin \<and> r > 0
       then (let p = snd (converter_lambda_para_negbin lambda r)
             in acumular (\<lambda>i. negative_binomial_pmf M i r p) 0 [0..k_max])
       else acumular (\<lambda>i. poisson_pmf M i lambda) 0 [0..k_max])
      (\<lambda>prob_acum. Inr (min 1 prob_acum))"

record IntervaloConfianca =
  p10 :: int
  p25 :: int
  p50 :: int
  p75 :: int
  p90 :: int
  variancia_alta :: bool

text \<open>The loop that fills \<^verbatim>\<open>cdf_values\<close>.\<close>

fun tabela_cdf :: "(int \<Rightarrow> erro + real) \<Rightarrow> int list \<Rightarrow> erro + (int \<times> real) list" where
  "tabela_cdf cdf [] = Inr []"
| "tabela_cdf cdf (k # ks) =
    (case cdf k of
       Inl e \<Rightarrow> Inl e
     | Inr c \<Rightarrow> (case tabela_cdf cdf ks of Inl e \<Rightarrow> Inl e | Inr t \<Rightarrow> Inr ((k, c) # t)))"

text \<open>
  The local function \<^verbatim>\<open>encontrar_percentil\<close>; \<^verbatim>\<open>cdf_values[-1][0]\<close> raises
  \<^verbatim>\<open>IndexError\<close> on the empty table.
\<close>

fun encontrar_percentil :: "(int \<times> real) list \<Rightarrow> real \<Rightarrow> erro + int" where
  "encontrar_percentil cdf_values p_alvo =
    (case find (\<lambda>kc. snd kc \<ge> p_alvo) cdf_values of
       Some kc \<Rightarrow> Inr (fst kc)
     | None \<Rightarrow> if cdf_values = [] then Inl IndexError else Inr (fst (last cdf_values)))"

definition calcular_percentis :: "matematica \<Rightarrow> real \<Rightarrow> real \<Rightarrow> bool \<Rightarrow> erro + IntervaloConfianca" where
  "calcular_percentis M lambda r usar_negbin =
    (let max_k = py_int (lambda * 3) + 10
     in entao (tabela_cdf (\<lambda>k. calcular_cdf M k lambda r usar_negbin) [0..max_k]) (\<lambda>cdf_values.
        entao (encontrar_percentil cdf_values (10 / 100)) (\<lambda>q10.
        entao (encontrar_percentil cdf_values (25 / 100)) (\<lambda>q25.
        entao (encontrar_percentil cdf_values (50 / 100)) (\<lambda>q50.
        entao (encontrar_percentil cdf_values (75 / 100)) (\<lambda>q75.
        entao (encontrar_percentil cdf_values (90 / 100)) (\<lambda>q90.
        Inr \<lparr>p10 = q10, p25 = q25, p50 = q50, p75 = q75, p90 = q90,
             variancia_alta = (q90 - q10 > 6)\<rparr>)))))))"

section \<open>Calibrator\<close>

text \<open>
  \<^verbatim>\<open>CalibradorIsotonico\<close>. The field \<^verbatim>\<open>mercado\<close> is \<open>mercado_calibrador\<close> and the private
  \<^verbatim>\<open>_mapa_calibracao\<close> is \<open>mapa_calibracao\<close>, \<open>None\<close> while no map is installed.
\<close>

record CalibradorIsotonico =
  mercado_calibrador :: string
  pontos_x :: "real list"
  pontos_y :: "real list"
  treinado :: bool
  mapa_calibracao :: "(int \<times> real) list option"

text \<open>\<^verbatim>\<open>__init__\<close> and \<^verbatim>\<open>adicionar_ponto\<close>.\<close>

definition novo_calibrador :: "string \<Rightarrow> CalibradorIsotonico" where
  "novo_calibrador m =
    \<lparr>mercado_calibrador = m, pontos_x = [], pontos_y = [], treinado = False,
     mapa_calibracao = None\<rparr>"

definition adicionar_ponto :: "CalibradorIsotonico \<Rightarrow> real \<Rightarrow> bool \<Rightarrow> CalibradorIsotonico" where
  "adicionar_ponto c p hit =
    c\<lparr>pontos_x := pontos_x c @ [p], pontos_y := pontos_y c @ [if hit then 1 else 0],
      treinado := False\<rparr>"

text \<open>\<^verbatim>\<open>d[k]\<close> as a read: \<^verbatim>\<open>KeyError\<close> on a missing key.\<close>

definition dict_get :: "('k \<times> 'v) list \<Rightarrow> 'k \<Rightarrow> erro + 'v" where
  "dict_get d k = (case map_of d k of None \<Rightarrow> Inl KeyError | Some v \<Rightarrow> Inr v)"

text \<open>\<^verbatim>\<open>int(x / 5) * 5\<close>.\<close>

definition bin_idx_de :: "real \<Rightarrow> int" where
  "bin_idx_de x = py_int (x / 5) * 5"

subsection \<open>\<^verbatim>\<open>CalibradorIsotonico.treinar\<close>\<close>

text \<open>The loop \<^verbatim>\<open>for x, y in pares: bins[bin_idx].append(y)\<close>.\<close>

fun agrupar_bins :: "(int \<times> real list) list \<Rightarrow> (real \<times> real) list \<Rightarrow> (int \<times> real list) list" where
  "agrupar_bins bins [] = bins"
| "agrupar_bins bins (xy # pares) =
    agrupar_bins (grupos_append bins (bin_idx_de (fst xy)) (snd xy)) pares"

text \<open>
  The loop that fills the map with \<^verbatim>\<open>sum(valores) / len(valores) * 100\<close>; the division
  raises on an empty list.
\<close>

fun medias_bins :: "(int \<times> real) list \<Rightarrow> (int \<times> real list) list \<Rightarrow> erro + (int \<times> real) list" where
  "medias_bins mapa [] = Inr mapa"
| "medias_bins mapa (bv # bins) =
    (if snd bv = [] then Inl ZeroDivisionError
     else medias_bins
            (AList.update (fst bv) (sum_list (snd bv) / real (length (snd bv)) * 100) mapa) bins)"

text \<open>The body of the smoothing loop at index \<open>i\<close>.\<close>

definition suavizar_passo :: "int list \<Rightarrow> (int \<times> real) list \<Rightarrow> nat \<Rightarrow> erro + (int \<times> real) list" where
  "suavizar_passo chaves_ordenadas mapa i =
    (let k_atual = chaves_ordenadas ! i; k_anterior = chaves_ordenadas ! (i - 1)
     in entao (dict_get mapa k_atual) (\<lambda>v_atual.
        entao (dict_get mapa k_anterior) (\<lambda>v_anterior.
        if v_atual < v_anterior
        then (let media = (v_atual + v_anterior) / 2
              in Inr (AList.update k_anterior media (AList.update k_atual media mapa)))
        else Inr mapa)))"

text \<open>The loop \<^verbatim>\<open>for i in range(1, len(chaves_ordenadas))\<close>: one pass, in ascending order.\<close>

fun suavizar :: "int list \<Rightarrow> (int \<times> real) list \<Rightarrow> nat list \<Rightarrow> erro + (int \<times> real) list" where
  "suavizar chaves_ordenadas mapa [] = Inr mapa"
| "suavizar chaves_ordenadas mapa (i # is) =
    (case suavizar_passo chaves_ordenadas mapa i of
       Inl e \<Rightarrow> Inl e
     | Inr mapa' \<Rightarrow> suavizar chaves_ordenadas mapa' is)"

definition treinar :: "CalibradorIsotonico \<Rightarrow> erro + CalibradorIsotonico" where
  "treinar c =
    (if length (pontos_x c) < 10
     then Inr (c\<lparr>mapa_calibracao := None, treinado := True\<rparr>)
     else
       (let pares = sort (zip (pontos_x c) (pontos_y c));
            bins = agrupar_bins [] pares
        in entao (medias_bins [] bins) (\<lambda>mapa.
           let chaves_ordenadas = sort (map fst mapa)
           in entao (suavizar chaves_ordenadas mapa [1..<length chaves_ordenadas]) (\<lambda>mapa'.
              Inr (c\<lparr>mapa_calibracao := Some mapa', treinado := True\<rparr>)))))"

subsection \<open>\<^verbatim>\<open>CalibradorIsotonico.calibrar\<close>\<close>

text \<open>
  The loop \<^verbatim>\<open>for i, k in enumerate(chaves[:-1])\<close> over neighbouring keys; \<open>None\<close> when it
  ends without returning.
\<close>

fun interpolar :: "(int \<times> real) list \<Rightarrow> int \<Rightarrow> int list \<Rightarrow> (erro + real) option" where
  "interpolar mapa bin_idx (k # k' # chaves) =
    (if k \<le> bin_idx \<and> bin_idx < k'
     then Some (let t = real_of_int (bin_idx - k) / real_of_int (k' - k)
                in entao (dict_get mapa k) (\<lambda>vk.
                   entao (dict_get mapa k') (\<lambda>vk'.
                   Inr ((1 - t) * vk + t * vk'))))
     else interpolar mapa bin_idx (k' # chaves))"
| "interpolar mapa bin_idx chaves = None"

text \<open>The part of \<^verbatim>\<open>calibrar\<close> that reads an installed map.\<close>

definition calibrar_no_mapa :: "(int \<times> real) list \<Rightarrow> real \<Rightarrow> erro + real" where
  "calibrar_no_mapa mapa p =
    (let bin_idx = bin_idx_de p
     in case map_of mapa bin_idx of
          Some v \<Rightarrow> Inr v
        | None \<Rightarrow>
            (let chaves = sort (map fst mapa)
             in if chaves = [] then Inl IndexError
                else if bin_idx < hd chaves then dict_get mapa (hd chaves)
                else if bin_idx > last chaves then dict_get mapa (last chaves)
                else (case interpolar mapa bin_idx chaves of
                        Some res \<Rightarrow> res
                      | None \<Rightarrow> Inr p)))"

text \<open>\<^verbatim>\<open>calibrar\<close> returns the calibrated value; the state after the lazy training is the
  second component.\<close>

definition calibrar :: "CalibradorIsotonico \<Rightarrow> real \<Rightarrow> erro + real \<times> CalibradorIsotonico" where
  "calibrar c p =
    entao (if \<not> treinado c then treinar c else Inr c) (\<lambda>c'.
      case mapa_calibracao c' of
        None \<Rightarrow> Inr (p, c')
      | Some mapa \<Rightarrow> entao (calibrar_no_mapa mapa p) (\<lambda>v. Inr (v, c')))"

text \<open>
  \<^verbatim>\<open>carregar\<close> applied to the file \<^verbatim>\<open>salvar\<close> wrote: market, points and map come back and
  \<^verbatim>\<open>treinado\<close> is set.
\<close>

definition recarregar :: "CalibradorIsotonico \<Rightarrow> CalibradorIsotonico" where
  "recarregar c =
    \<lparr>mercado_calibrador = mercado_calibrador c, pontos_x = pontos_x c, pontos_y = pontos_y c,
     treinado = True, mapa_calibracao = mapa_calibracao c\<rparr>"

text \<open>The calibrators a program can hold: those the methods of the class produce.\<close>

inductive alcancavel :: "CalibradorIsotonico \<Rightarrow> bool" where
  alc_novo: "alcancavel (novo_calibrador m)"
| alc_ponto: "alcancavel c \<Longrightarrow> alcancavel (adicionar_ponto c p hit)"
| alc_treinar: "alcancavel c \<Longrightarrow> treinar c = Inr c' \<Longrightarrow> alcancavel c'"
| alc_calibrar: "alcancavel c \<Longrightarrow> calibrar c p = Inr (v, c') \<Longrightarrow> alcancavel c'"
| alc_recarregar: "alcancavel c \<Longrightarrow> alcancavel (recarregar c)"

text \<open>A calibrator with ten observations in three bins, for the monotonicity question.\<close>

definition calibrador_3_bins :: CalibradorIsotonico where
  "calibrador_3_bins =
    \<lparr>mercado_calibrador = ''Over 3.5'',
     pontos_x = [1, 2, 3, 4, 6, 7, 8, 11, 12, 13],
     pontos_y = [1, 1, 1, 1, 1, 1, 1, 0, 0, 0],
     treinado = False, mapa_calibracao = None\<rparr>"

section \<open>The \<open>\<lambda>\<close> pipeline\<close>

subsection \<open>Tables\<close>

text \<open>Letters outside ASCII in the league names: a-tilde, e-acute, o-acute, c-cedilla.\<close>

definition a_til :: string where "a_til = [CHR 0xC3, CHR 0xA3]"
definition e_agudo :: string where "e_agudo = [CHR 0xC3, CHR 0xA9]"
definition o_agudo :: string where "o_agudo = [CHR 0xC3, CHR 0xB3]"
definition c_cedilha :: string where "c_cedilha = [CHR 0xC3, CHR 0xA7]"

definition DISPERSAO_POR_LIGA :: "(string \<times> real) list" where
  "DISPERSAO_POR_LIGA =
    [(''Brasileir'' @ a_til @ ''o S'' @ e_agudo @ ''rie A'', 3),
     (''Brasileir'' @ a_til @ ''o S'' @ e_agudo @ ''rie B'', 28 / 10),
     (''Copa do Brasil'', 25 / 10),
     (''S'' @ e_agudo @ ''rie C Brasil'', 26 / 10),
     (''S'' @ e_agudo @ ''rie D Brasil'', 24 / 10),
     (''Premier League'', 4),
     (''La Liga'', 35 / 10),
     (''LaLiga'', 35 / 10),
     (''Bundesliga'', 45 / 10),
     (''Serie A'', 32 / 10),
     (''Ligue 1'', 38 / 10),
     (''Champions League'', 3),
     (''Europa League'', 3),
     (''Conference League'', 28 / 10),
     (''Copa Libertadores'', 23 / 10),
     (''Copa Sudamericana'', 25 / 10),
     (''Primera Divisi'' @ o_agudo @ ''n Argentina'', 28 / 10),
     (''Primeira Liga Argentina'', 28 / 10),
     (''Championship'', 35 / 10),
     (''Liga Portugal'', 32 / 10)]"

definition DISPERSAO_GLOBAL :: real where
  "DISPERSAO_GLOBAL = 3"

definition PESOS_QUALIDADE :: "(string \<times> real) list" where
  "PESOS_QUALIDADE =
    [(''completude_arbitro'', 25), (''completude_times'', 20), (''amostra_arbitro'', 20),
     (''amostra_times'', 15), (''recencia'', 10), (''competicao_mapeada'', 10)]"

text \<open>\<^verbatim>\<open>PESOS_QUALIDADE[k]\<close> for the six literal keys of the source, all in the table.\<close>

definition peso_qualidade :: "string \<Rightarrow> real" where
  "peso_qualidade k = (case map_of PESOS_QUALIDADE k of Some w \<Rightarrow> w | None \<Rightarrow> 0)"

subsection \<open>Records\<close>

record DadosArbitro =
  nome :: string
  pais :: string
  media_amarelos_10j :: real
  media_amarelos_5j :: real
  media_amarelos_1t :: real
  media_amarelos_2t :: real
  media_faltas_10j :: real
  media_faltas_5j :: real
  media_vermelhos :: real
  perfil :: string
  n_jogos_disponiveis :: int

text \<open>
  \<^verbatim>\<open>DadosTime\<close> repeats two field names of the referee; the referee's are written
  \<open>DadosArbitro.nome\<close> and \<open>DadosArbitro.n_jogos_disponiveis\<close> from here on.
\<close>

record DadosTime =
  nome :: string
  posicao :: string
  faltas_pro :: real
  faltas_contra :: real
  amarelos_pro :: real
  amarelos_contra :: real
  n_jogos_disponiveis :: int

record DadosBaseline =
  competicao :: string
  media_amarelos :: real
  media_faltas :: real
  eh_copa :: bool

text \<open>\<^verbatim>\<open>DadosPartida\<close>; its field \<^verbatim>\<open>local\<close> is \<open>local_partida\<close>.\<close>

record DadosPartida =
  liga :: string
  data :: string
  horario :: string
  estadio :: string
  local_partida :: string
  fase :: string
  time_mandante :: DadosTime
  time_visitante :: DadosTime
  arbitro :: DadosArbitro
  baseline :: DadosBaseline
  perfil_card :: string

text \<open>
  \<^verbatim>\<open>QualidadeDados\<close> and \<^verbatim>\<open>CalculoLambda\<close>. The fields that hold display text only
  (\<^verbatim>\<open>campos_faltantes\<close>, \<^verbatim>\<open>avisos\<close>, \<^verbatim>\<open>razao_shrinkage\<close>, \<^verbatim>\<open>motivo_modelo\<close>) are
  left out: no computation reads them.
\<close>

record QualidadeDados =
  score_total :: real
  completude_arbitro :: real
  completude_times :: real
  amostra_arbitro :: real
  amostra_times :: real
  recencia :: real
  competicao_mapeada :: real

record CalculoLambda =
  lambda_base :: real
  delta_arbitro :: real
  delta_times :: real
  ajuste_recencia :: real
  lambda_final_raw :: real
  peso_shrinkage :: real
  lambda_shrunk :: real
  media_5j_arbitro :: real
  media_10j_arbitro :: real
  media_arbitro_ponderada :: real
  amarelos_mandante :: real
  amarelos_visitante :: real
  soma_amarelos_times :: real
  fator_recencia_raw :: real
  fator_recencia_capado :: real
  modelo_utilizado :: string
  dispersao_r :: real
  qualidade_dados :: QualidadeDados

subsection \<open>String helpers\<close>

text \<open>The substring test \<^verbatim>\<open>a in b\<close>.\<close>

fun contem :: "string \<Rightarrow> string \<Rightarrow> bool" where
  "contem a [] = (a = [])"
| "contem a (c # cs) = (take (length a) (c # cs) = a \<or> contem a cs)"

text \<open>
  \<^verbatim>\<open>obter_dispersao_liga\<close> and \<^verbatim>\<open>eh_competicao_copa\<close>; \<open>lower\<close> stands for
  \<^verbatim>\<open>str.lower\<close>.
\<close>

definition obter_dispersao_liga :: "(string \<Rightarrow> string) \<Rightarrow> string \<Rightarrow> real" where
  "obter_dispersao_liga lower l =
    (case map_of DISPERSAO_POR_LIGA l of
       Some r \<Rightarrow> r
     | None \<Rightarrow>
         (case find (\<lambda>nr. contem (lower (fst nr)) (lower l) \<or> contem (lower l) (lower (fst nr)))
                 DISPERSAO_POR_LIGA of
            Some nr \<Rightarrow> snd nr
          | None \<Rightarrow> DISPERSAO_GLOBAL))"

definition termos_copa :: "string list" where
  "termos_copa = [''copa'', ''cup'', ''ta'' @ c_cedilha @ ''a'', ''taca'', ''libertadores'',
     ''sudamericana'', ''champions'', ''europa league'', ''conference'']"

definition eh_competicao_copa :: "(string \<Rightarrow> string) \<Rightarrow> string \<Rightarrow> bool" where
  "eh_competicao_copa lower l = list_ex (\<lambda>termo. contem termo (lower l)) termos_copa"

subsection \<open>\<^verbatim>\<open>avaliar_qualidade_dados\<close>\<close>

definition avaliar_qualidade_dados :: "(string \<Rightarrow> string) \<Rightarrow> DadosPartida \<Rightarrow> QualidadeDados" where
  "avaliar_qualidade_dados lower p =
    (let arb = arbitro p;
         campos_arbitro = [media_amarelos_10j arb, media_amarelos_5j arb, media_faltas_10j arb];
         pontos_arbitro = fold (\<lambda>valor pontos. if valor > 0 then pontos + 3333 / 100 else pontos)
                            campos_arbitro 0;
         completude_arb = min 100 pontos_arbitro;
         mandante = time_mandante p;
         visitante = time_visitante p;
         pontos_times = (if amarelos_pro mandante > 0 then 25 else 0)
                      + (if faltas_pro mandante > 0 then 25 else 0)
                      + (if amarelos_pro visitante > 0 then 25 else 0)
                      + (if faltas_pro visitante > 0 then 25 else 0);
         n_jogos_arb = DadosArbitro.n_jogos_disponiveis arb;
         amostra_arb = (if n_jogos_arb \<ge> 10 then 100 else if n_jogos_arb \<ge> 5 then 70
                        else if n_jogos_arb \<ge> 3 then 40 else 20);
         n_jogos_times = min (n_jogos_disponiveis mandante) (n_jogos_disponiveis visitante);
         amostra_tim = (if n_jogos_times \<ge> 5 then 100 else if n_jogos_times \<ge> 3 then 60 else 30);
         rec = (if media_amarelos_5j arb > 0 \<and> media_amarelos_5j arb \<noteq> media_amarelos_10j arb
                then 100
                else if media_amarelos_5j arb > 0 then 70 else 30);
         l = competicao (baseline p);
         mapeada = (if l \<in> set (map fst DISPERSAO_POR_LIGA) then 100
                    else if list_ex (\<lambda>n. contem (lower n) (lower l)) (map fst DISPERSAO_POR_LIGA)
                    then 70 else 40);
         total = completude_arb * peso_qualidade ''completude_arbitro'' / 100
               + pontos_times * peso_qualidade ''completude_times'' / 100
               + amostra_arb * peso_qualidade ''amostra_arbitro'' / 100
               + amostra_tim * peso_qualidade ''amostra_times'' / 100
               + rec * peso_qualidade ''recencia'' / 100
               + mapeada * peso_qualidade ''competicao_mapeada'' / 100
     in \<lparr>score_total = total, completude_arbitro = completude_arb,
         completude_times = pontos_times, amostra_arbitro = amostra_arb,
         amostra_times = amostra_tim, recencia = rec, competicao_mapeada = mapeada\<rparr>)"

subsection \<open>\<^verbatim>\<open>calcular_peso_shrinkage\<close> and \<^verbatim>\<open>calcular_lambda\<close>\<close>

text \<open>
  The weight \<open>w\<close>, first component of the returned pair (the second is the explanatory
  text).
\<close>

definition calcular_peso_shrinkage :: "QualidadeDados \<Rightarrow> int \<Rightarrow> real" where
  "calcular_peso_shrinkage qualidade n_jogos_arbitro =
    (let w_base = score_total qualidade / 100;
         fator_amostra = (if n_jogos_arbitro \<ge> 10 then 1
                          else if n_jogos_arbitro \<ge> 7 then 9 / 10
                          else if n_jogos_arbitro \<ge> 5 then 75 / 100
                          else if n_jogos_arbitro \<ge> 3 then 5 / 10
                          else 3 / 10);
         fator_completude = (completude_arbitro qualidade + completude_times qualidade) / 200;
         w = w_base * fator_amostra * (5 / 10 + 5 / 10 * fator_completude)
     in max (3 / 10) (min (95 / 100) w))"

definition calcular_lambda :: "(string \<Rightarrow> string) \<Rightarrow> DadosPartida \<Rightarrow> CalculoLambda" where
  "calcular_lambda lower p =
    (let qualidade = avaliar_qualidade_dados lower p;
         lam_base = (if media_amarelos (baseline p) \<le> 0 then 5 else media_amarelos (baseline p));
         m5_0 = media_amarelos_5j (arbitro p);
         m10_0 = media_amarelos_10j (arbitro p);
         m5_1 = (if m5_0 \<le> 0 then m10_0 else m5_0);
         m10_1 = (if m10_0 \<le> 0 then m5_1 else m10_0);
         media_5j = (if m5_1 \<le> 0 \<and> m10_1 \<le> 0 then lam_base else m5_1);
         media_10j = (if m5_1 \<le> 0 \<and> m10_1 \<le> 0 then lam_base else m10_1);
         ponderada = (6 / 10 * media_5j) + (4 / 10 * media_10j);
         d_arbitro = 8 / 10 * (ponderada - lam_base);
         am_mandante = (if amarelos_pro (time_mandante p) \<le> 0 then lam_base / 2
                        else amarelos_pro (time_mandante p));
         am_visitante = (if amarelos_pro (time_visitante p) \<le> 0 then lam_base / 2
                         else amarelos_pro (time_visitante p));
         soma = am_mandante + am_visitante;
         d_times = 6 / 10 * (soma - lam_base);
         f_raw = (if media_10j > 0 then 1 + ((media_5j - media_10j) / media_10j) else 1);
         f_capado = max (95 / 100) (min (105 / 100) f_raw);
         aj_recencia = lam_base * (f_capado - 1);
         lam_raw = max 2 (min 10 (lam_base + d_arbitro + d_times + aj_recencia));
         n_jogos = DadosArbitro.n_jogos_disponiveis (arbitro p);
         peso_w = calcular_peso_shrinkage qualidade n_jogos;
         lam_shrunk = max 2 (min 10 (peso_w * lam_raw + (1 - peso_w) * lam_base));
         r0 = obter_dispersao_liga lower (competicao (baseline p));
         perfil_l = lower (perfil (arbitro p));
         r1 = (if contem ''rigoroso'' perfil_l then r0 * (85 / 100)
               else if contem ''permissivo'' perfil_l then r0 * (11 / 10)
               else r0);
         r2 = (if eh_competicao_copa lower (liga p) then r1 * (9 / 10) else r1)
     in \<lparr>lambda_base = lam_base, delta_arbitro = d_arbitro, delta_times = d_times,
         ajuste_recencia = aj_recencia, lambda_final_raw = lam_raw, peso_shrinkage = peso_w,
         lambda_shrunk = lam_shrunk, media_5j_arbitro = media_5j, media_10j_arbitro = media_10j,
         media_arbitro_ponderada = ponderada, amarelos_mandante = am_mandante,
         amarelos_visitante = am_visitante, soma_amarelos_times = soma,
         fator_recencia_raw = f_raw, fator_recencia_capado = f_capado,
         modelo_utilizado = ''Negative Binomial'', dispersao_r = r2,
         qualidade_dados = qualidade\<rparr>)"

subsection \<open>Concrete inputs of the pipeline and of the distributions\<close>

text \<open>
  A match with the inputs of the end-to-end example: league baseline 5.4, referee averages
  6.2 (last 5) and 5.0 (last 10), team averages 2.0 and 2.5. The referee has 7 games on
  record, the teams 4, and the away team has no fouls figure; the league is in the
  dispersion table.
\<close>

definition partida_exemplo :: DadosPartida where
  "partida_exemplo =
    \<lparr>liga = ''Premier League'', data = ''2025-01-01'', horario = ''16:00'', estadio = ''E'',
     local_partida = ''L'', fase = ''F'',
     time_mandante = \<lparr>nome = ''M'', posicao = ''1'', faltas_pro = 12, faltas_contra = 11,
        amarelos_pro = 2, amarelos_contra = 2, n_jogos_disponiveis = 4\<rparr>,
     time_visitante = \<lparr>nome = ''V'', posicao = ''2'', faltas_pro = 0, faltas_contra = 11,
        amarelos_pro = 25 / 10, amarelos_contra = 2, n_jogos_disponiveis = 4\<rparr>,
     arbitro = \<lparr>DadosArbitro.nome = ''A'', pais = ''P'', media_amarelos_10j = 5,
        media_amarelos_5j = 62 / 10, media_amarelos_1t = 2, media_amarelos_2t = 3,
        media_faltas_10j = 25, media_faltas_5j = 25, media_vermelhos = 0,
        perfil = ''Rigoroso'', DadosArbitro.n_jogos_disponiveis = 7\<rparr>,
     baseline = \<lparr>competicao = ''Premier League'', media_amarelos = 54 / 10, media_faltas = 22,
        eh_copa = False\<rparr>,
     perfil_card = ''X''\<rparr>"

text \<open>Float primitives whose every transcendental call overflows.\<close>

definition matematica_estouro :: matematica where
  "matematica_estouro =
    \<lparr>math_exp = (\<lambda>x. Inl OverflowError), math_lgamma = (\<lambda>x. Inl OverflowError),
     float_pow = (\<lambda>x y. Inl OverflowError), int_estoura = (\<lambda>i. False)\<rparr>"

section \<open>Properties of the rule miner\<close>

subsection \<open>Where a discovered rule comes from\<close>

lemma getattr_faixa_prob: "getattr_partida p ''faixa_prob'' = None"
  by (simp add: getattr_partida_def)

lemma extrair_valores_getattr:
  "(k, v) \<in> set (extrair_valores p fatores) \<Longrightarrow> getattr_partida p k = Some v"
  by (induction fatores) (auto split: option.splits if_splits)

lemma extrair_valores_sem_faixa_prob:
  "''faixa_prob'' \<notin> fst ` set (extrair_valores p fatores)"
proof
  assume "''faixa_prob'' \<in> fst ` set (extrair_valores p fatores)"
  then obtain v where "(''faixa_prob'', v) \<in> set (extrair_valores p fatores)" by auto
  then have "getattr_partida p ''faixa_prob'' = Some v" by (rule extrair_valores_getattr)
  then show False by (simp add: getattr_faixa_prob)
qed

lemma chaves_grupos_append:
  "fst ` set (grupos_append grupos chave r) \<subseteq> insert chave (fst ` set grupos)"
proof -
  have "set (map fst (grupos_append grupos chave r)) \<subseteq> insert chave (set (map fst grupos))"
    unfolding grupos_append_def by (auto simp: update_keys)
  then show ?thesis by simp
qed

lemma agrupar_chaves:
  "cg \<in> set (agrupar n fatores grupos registros) \<Longrightarrow>
   fst cg \<in> fst ` set grupos \<or> (\<exists>r \<in> set registros. fst cg = extrair_valores (partida r) fatores)"
proof (induction registros arbitrary: grupos)
  case Nil
  then show ?case by auto
next
  case (Cons r registros)
  show ?case
  proof (cases "length (extrair_valores (partida r) fatores) = n")
    case True
    with Cons.prems have "cg \<in> set (agrupar n fatores (grupos_append grupos (extrair_valores (partida r) fatores) r) registros)"
      by (simp add: Let_def)
    from Cons.IH [OF this] chaves_grupos_append [of grupos "extrair_valores (partida r) fatores" r]
    show ?thesis by auto
  next
    case False
    with Cons.prems have "cg \<in> set (agrupar n fatores grupos registros)"
      by (simp add: Let_def)
    from Cons.IH [OF this] show ?thesis by auto
  qed
qed

lemma analisar_grupo_regra:
  assumes "regra \<in> set (analisar_grupo m cg)"
  shows "condicoes regra = fst cg \<and> mercado_regra regra = m
    \<and> MIN_AMOSTRAS_REGRA \<le> total_amostras regra
    \<and> taxa_acerto regra = real (acertos regra) / real (total_amostras regra) * 100
    \<and> THRESHOLD_OURO \<le> taxa_acerto regra
    \<and> nivel regra = (if THRESHOLD_DIAMANTE \<le> taxa_acerto regra then ''Diamante''
                      else if THRESHOLD_PLATINA \<le> taxa_acerto regra then ''Platina''
                      else ''Ouro'')"
  using assms unfolding analisar_grupo_def Let_def
  by (auto split: if_splits)

lemma testar_combinacoes_regra:
  assumes "regra \<in> set (testar_combinacoes m registros n)"
  shows "\<exists>cg fatores. regra \<in> set (analisar_grupo m cg)
           \<and> (\<exists>r \<in> set registros. fst cg = extrair_valores (partida r) fatores)"
proof -
  from assms obtain fatores cg where
    cg: "cg \<in> set (agrupar n fatores [] registros)" and r: "regra \<in> set (analisar_grupo m cg)"
    unfolding testar_combinacoes_def by auto
  from agrupar_chaves [OF cg] have "\<exists>r \<in> set registros. fst cg = extrair_valores (partida r) fatores"
    by simp
  with r show ?thesis by blast
qed

lemma set_filtrar_laco: "set (filtrar_laco filtradas regras) \<subseteq> set filtradas \<union> set regras"
proof (induction regras arbitrary: filtradas)
  case Nil
  then show ?case by simp
next
  case (Cons regra regras)
  from Cons.IH [of filtradas] Cons.IH [of "filtradas @ [regra]"] show ?case by auto
qed

lemma set_filtrar_redundantes: "set (filtrar_redundantes regras) \<subseteq> set regras"
  using set_filtrar_laco [of "[]" "sort_key (\<lambda>r. - int (length (condicoes r))) regras"]
  by (auto simp: filtrar_redundantes_def)

lemma regras_do_mercado_regra:
  assumes "regra \<in> set (regras_do_mercado mr)"
  shows "\<exists>n. regra \<in> set (testar_combinacoes (fst mr) (snd mr) n)"
proof -
  from assms have "regra \<in> set (filtrar_redundantes
      (concat (map (testar_combinacoes (fst mr) (snd mr)) [1, 2, 3])))"
    unfolding regras_do_mercado_def Let_def by (auto split: if_splits)
  with set_filtrar_redundantes have "regra \<in> set (concat (map (testar_combinacoes (fst mr) (snd mr)) [1, 2, 3]))"
    by blast
  then show ?thesis by auto
qed

lemma atribuir_ids_regra:
  "regra \<in> set (atribuir_ids i regras) \<Longrightarrow>
   \<exists>r0 \<in> set regras. \<exists>j. regra = gerar_descricao (r0\<lparr>id_regra := j\<rparr>)"
  by (induction regras arbitrary: i) auto

lemma descobrir_regras_origem:
  assumes "regra \<in> set (descobrir_regras registros)"
  shows "\<exists>r0 j m cg fatores p. regra = gerar_descricao (r0\<lparr>id_regra := j\<rparr>)
     \<and> r0 \<in> set (analisar_grupo m cg) \<and> fst cg = extrair_valores p fatores"
proof -
  from assms obtain r0 j where
    r0: "r0 \<in> set (concat (map regras_do_mercado (agrupar_por_mercado [] registros)))"
    and eq: "regra = gerar_descricao (r0\<lparr>id_regra := j\<rparr>)"
    unfolding descobrir_regras_def Let_def by (auto dest!: atribuir_ids_regra)
  from r0 obtain mr where "r0 \<in> set (regras_do_mercado mr)" by auto
  then obtain n where "r0 \<in> set (testar_combinacoes (fst mr) (snd mr) n)"
    using regras_do_mercado_regra by blast
  from testar_combinacoes_regra [OF this] eq show ?thesis by blast
qed

lemma gerar_descricao_campos:
  "condicoes (gerar_descricao r) = condicoes r" "total_amostras (gerar_descricao r) = total_amostras r"
  "acertos (gerar_descricao r) = acertos r" "taxa_acerto (gerar_descricao r) = taxa_acerto r"
  "nivel (gerar_descricao r) = nivel r"
  by (simp_all add: gerar_descricao_def)





text \<open>
  One shared factor. When all ten records of a market carry the same usable value of a
  factor and eight of them are hits, the one-factor Ouro rule at hit rate 80 is among the
  candidates of \<^const>\<open>testar_combinacoes\<close>; when no other factor is usable on any
  record, it is the whole result of \<^const>\<open>descobrir_regras\<close>.
\<close>

lemma combinations_um: "combinations xs (Suc 0) = map (\<lambda>x. [x]) xs"
  by (induction xs) simp_all

lemma agrupar_mesma_chave:
  assumes "\<forall>r \<in> set registros. extrair_valores (partida r) fatores = chave"
    and "length chave = n"
  shows "agrupar n fatores [(chave, grupo)] registros = [(chave, grupo @ registros)]"
  using assms
proof (induction registros arbitrary: grupo)
  case Nil
  then show ?case by simp
next
  case (Cons r registros)
  from Cons.prems have e: "extrair_valores (partida r) fatores = chave" by simp
  have "grupos_append [(chave, grupo)] chave r = [(chave, grupo @ [r])]"
    by (simp add: grupos_append_def)
  with e Cons.prems(2) have "agrupar n fatores [(chave, grupo)] (r # registros)
      = agrupar n fatores [(chave, grupo @ [r])] registros"
    by (simp add: Let_def)
  also have "\<dots> = [(chave, (grupo @ [r]) @ registros)]"
    using Cons.prems by (intro Cons.IH) simp_all
  finally show ?case by simp
qed

lemma agrupar_um_grupo:
  assumes "\<forall>r \<in> set registros. extrair_valores (partida r) fatores = chave"
    and "length chave = n" and "registros \<noteq> []"
  shows "agrupar n fatores [] registros = [(chave, registros)]"
proof -
  from assms(3) obtain r rs where rs: "registros = r # rs" by (cases registros) auto
  with assms(1) have e: "extrair_valores (partida r) fatores = chave"
    and t: "\<forall>r \<in> set rs. extrair_valores (partida r) fatores = chave" by simp_all
  have "grupos_append [] chave r = [(chave, [r])]" by (simp add: grupos_append_def)
  with e assms(2) rs have "agrupar n fatores [] registros = agrupar n fatores [(chave, [r])] rs"
    by (simp add: Let_def)
  also have "\<dots> = [(chave, [r] @ rs)]" using t assms(2) by (rule agrupar_mesma_chave)
  finally show ?thesis using rs by simp
qed

lemma combinations_props:
  "c \<in> set (combinations xs n) \<Longrightarrow> length c = n \<and> set c \<subseteq> set xs \<and> (distinct xs \<longrightarrow> distinct c)"
proof (induction xs n arbitrary: c rule: combinations.induct)
  case (1 xs)
  then show ?case by simp
next
  case (2 n)
  then show ?case by simp
next
  case (3 x xs n)
  from "3.prems" consider c' where "c = x # c'" "c' \<in> set (combinations xs n)"
    | "c \<in> set (combinations xs (Suc n))" by auto
  then show ?case
  proof cases
    case 1
    with "3.IH"(1) [OF 1(2)] show ?thesis by auto
  next
    case 2
    with "3.IH"(2) [OF 2] show ?thesis by auto
  qed
qed

lemma length_extrair_valores: "length (extrair_valores p fs) \<le> length fs"
  by (induction fs) (auto split: option.splits)

lemma extrair_valores_completo:
  "length (extrair_valores p fs) = length fs \<Longrightarrow>
   \<forall>f \<in> set fs. \<exists>v. getattr_partida p f = Some v \<and> v \<noteq> [] \<and> v \<noteq> ''Desconhecido''"
proof (induction fs)
  case Nil
  then show ?case by simp
next
  case (Cons f fs)
  show ?case
  proof (cases "\<exists>v. getattr_partida p f = Some v \<and> v \<noteq> [] \<and> v \<noteq> ''Desconhecido''")
    case True
    then obtain v where v: "getattr_partida p f = Some v" "v \<noteq> []" "v \<noteq> ''Desconhecido''" by blast
    with Cons.prems have "length (extrair_valores p fs) = length fs" by simp
    from Cons.IH [OF this] True show ?thesis by simp
  next
    case False
    then have "extrair_valores p (f # fs) = []" by (auto split: option.splits)
    with Cons.prems show ?thesis by simp
  qed
qed

lemma agrupar_nenhum:
  "\<forall>r \<in> set registros. length (extrair_valores (partida r) fs) \<noteq> n \<Longrightarrow>
   agrupar n fs grupos registros = grupos"
  by (induction registros arbitrary: grupos) (simp_all add: Let_def)

lemma concat_unico:
  "distinct xs \<Longrightarrow> x \<in> set xs \<Longrightarrow> \<forall>y \<in> set xs. y \<noteq> x \<longrightarrow> g y = [] \<Longrightarrow>
   concat (map g xs) = g x"
proof (induction xs)
  case Nil
  then show ?case by simp
next
  case (Cons a xs)
  show ?case
  proof (cases "a = x")
    case True
    with Cons.prems have "\<forall>y \<in> set xs. g y = []" by auto
    then have "concat (map g xs) = []" by simp
    with True show ?thesis by simp
  next
    case False
    with Cons.prems have "g a = []" "x \<in> set xs" "distinct xs" "\<forall>y \<in> set xs. y \<noteq> x \<longrightarrow> g y = []"
      by auto
    with Cons.IH show ?thesis by simp
  qed
qed

lemma distinct_FATORES_ANALISE: "distinct FATORES_ANALISE"
  by (simp add: FATORES_ANALISE_def)

lemma agrupar_por_mercado_mesmo:
  "\<forall>r \<in> set registros. mercado (resultado r) = m \<Longrightarrow>
   agrupar_por_mercado [(m, grupo)] registros = [(m, grupo @ registros)]"
proof (induction registros arbitrary: grupo)
  case Nil
  then show ?case by simp
next
  case (Cons r registros)
  have "grupos_append [(m, grupo)] m r = [(m, grupo @ [r])]" by (simp add: grupos_append_def)
  with Cons.prems have "agrupar_por_mercado [(m, grupo)] (r # registros)
     = agrupar_por_mercado [(m, grupo @ [r])] registros" by simp
  also have "\<dots> = [(m, (grupo @ [r]) @ registros)]" using Cons.prems by (intro Cons.IH) simp
  finally show ?case by simp
qed

lemma agrupar_por_mercado_um:
  assumes "\<forall>r \<in> set registros. mercado (resultado r) = m" and "registros \<noteq> []"
  shows "agrupar_por_mercado [] registros = [(m, registros)]"
proof -
  from assms(2) obtain r rs where rs: "registros = r # rs" by (cases registros) auto
  have "grupos_append [] m r = [(m, [r])]" by (simp add: grupos_append_def)
  with assms(1) rs have "agrupar_por_mercado [] registros = agrupar_por_mercado [(m, [r])] rs"
    by simp
  also have "\<dots> = [(m, [r] @ rs)]" using assms(1) rs by (intro agrupar_por_mercado_mesmo) simp
  finally show ?thesis using rs by simp
qed

lemma descobrir_regras_fator_unico:
  assumes n: "length registros = 10"
    and h: "length (filter (\<lambda>r. acertou (resultado r)) registros) = 8"
    and mk: "\<forall>r \<in> set registros. mercado (resultado r) = m"
    and ex: "m \<notin> set MERCADOS_EXCLUIDOS_REGRAS"
    and f: "fator \<in> set FATORES_ANALISE"
    and g: "\<forall>r \<in> set registros. getattr_partida (partida r) fator = Some valor"
    and v: "valor \<noteq> []" "valor \<noteq> ''Desconhecido''"
    and o: "\<forall>r \<in> set registros. \<forall>f' \<in> set FATORES_ANALISE. f' \<noteq> fator \<longrightarrow>
              getattr_partida (partida r) f' = None
              \<or> getattr_partida (partida r) f' = Some []
              \<or> getattr_partida (partida r) f' = Some ''Desconhecido''"
  shows "descobrir_regras registros =
    [gerar_descricao \<lparr>id_regra = 1, mercado_regra = m, condicoes = [(fator, valor)],
       total_amostras = 10, acertos = 8, taxa_acerto = 80, nivel = ''Ouro'',
       cor = ''#ffd700'', descricao = []\<rparr>]"
proof -
  let ?r0 = "\<lparr>id_regra = 0, mercado_regra = m, condicoes = [(fator, valor)],
       total_amostras = 10, acertos = 8, taxa_acerto = 80, nivel = ''Ouro'',
       cor = ''#ffd700'', descricao = []\<rparr>"
  let ?G = "\<lambda>k c. concat (map (analisar_grupo m) (agrupar k c [] registros))"
  from n have ne: "registros \<noteq> []" by auto
  have vazio: "?G k c = []" if c: "c \<in> set (combinations FATORES_ANALISE k)" and k: "0 < k"
    and d: "c \<noteq> [fator]" for k c
  proof -
    from combinations_props [OF c] distinct_FATORES_ANALISE
    have lc: "length c = k" and sc: "set c \<subseteq> set FATORES_ANALISE" and dc: "distinct c" by auto
    have "\<forall>r \<in> set registros. length (extrair_valores (partida r) c) \<noteq> k"
    proof (intro ballI notI)
      fix r assume r: "r \<in> set registros" and l: "length (extrair_valores (partida r) c) = k"
      with lc have "length (extrair_valores (partida r) c) = length c" by simp
      from extrair_valores_completo [OF this]
      have u: "\<forall>f' \<in> set c. \<exists>w. getattr_partida (partida r) f' = Some w \<and> w \<noteq> [] \<and> w \<noteq> ''Desconhecido''" .
      have "set c \<subseteq> {fator}"
      proof
        fix f' assume f': "f' \<in> set c"
        with u obtain w where "getattr_partida (partida r) f' = Some w" "w \<noteq> []" "w \<noteq> ''Desconhecido''"
          by blast
        moreover from f' sc have "f' \<in> set FATORES_ANALISE" by blast
        ultimately show "f' \<in> {fator}" using o r by force
      qed
      moreover from lc k have "c \<noteq> []" by auto
      ultimately have "c = [fator]" using dc
        by (cases c; cases "tl c") auto
      with d show False by simp
    qed
    then have "agrupar k c [] registros = []" by (rule agrupar_nenhum)
    then show ?thesis by simp
  qed
  have um: "?G 1 [fator] = [?r0]"
  proof -
    from g v have "\<forall>r \<in> set registros. extrair_valores (partida r) [fator] = [(fator, valor)]"
      by simp
    then have a: "agrupar 1 [fator] [] registros = [([(fator, valor)], registros)]"
      using ne by (intro agrupar_um_grupo) simp_all
    have "analisar_grupo m ([(fator, valor)], registros) = [?r0]"
      by (simp add: analisar_grupo_def Let_def n h MIN_AMOSTRAS_REGRA_def THRESHOLD_OURO_def
          THRESHOLD_PLATINA_def THRESHOLD_DIAMANTE_def)
    with a show ?thesis by simp
  qed
  have t1: "testar_combinacoes m registros 1 = [?r0]"
  proof -
    have "testar_combinacoes m registros 1 = concat (map (\<lambda>x. ?G 1 [x]) FATORES_ANALISE)"
      by (simp add: testar_combinacoes_def combinations_um comp_def)
    also have "\<dots> = ?G 1 [fator]"
    proof (rule concat_unico [OF distinct_FATORES_ANALISE f])
      show "\<forall>y \<in> set FATORES_ANALISE. y \<noteq> fator \<longrightarrow> ?G 1 [y] = []"
      proof (intro ballI impI)
        fix y assume "y \<in> set FATORES_ANALISE" "y \<noteq> fator"
        then have "[y] \<in> set (combinations FATORES_ANALISE 1)" "[y] \<noteq> [fator]"
          by (simp_all add: combinations_um)
        then show "?G 1 [y] = []" by (intro vazio) simp_all
      qed
    qed
    finally show ?thesis using um by simp
  qed
  have tn: "testar_combinacoes m registros k = []" if "1 < k" for k
  proof -
    have "\<forall>c \<in> set (combinations FATORES_ANALISE k). ?G k c = []"
    proof
      fix c assume c: "c \<in> set (combinations FATORES_ANALISE k)"
      from combinations_props [OF c] that have "c \<noteq> [fator]" by auto
      with c that show "?G k c = []" by (intro vazio) simp_all
    qed
    then show ?thesis by (simp add: testar_combinacoes_def)
  qed
  have "concat (map (testar_combinacoes m registros) [1, 2, 3]) = [?r0]"
    using t1 tn [of 2] tn [of 3] by simp
  then have rm: "regras_do_mercado (m, registros) = [?r0]"
    using ex n by (simp add: regras_do_mercado_def Let_def MIN_AMOSTRAS_REGRA_def
      filtrar_redundantes_def)
  have pm: "agrupar_por_mercado [] registros = [(m, registros)]"
    using mk ne by (rule agrupar_por_mercado_um)
  show ?thesis
    by (simp add: descobrir_regras_def Let_def pm rm)
qed


text \<open>The synthetic corpus of ten records, through the whole of \<^const>\<open>descobrir_regras\<close>.\<close>

lemma descobrir_regras_corpus_10:
  "descobrir_regras corpus_10 =
    [\<lparr>id_regra = 1, mercado_regra = ''Over 3.5 Cart'' @ [CHR 0xC3, CHR 0xB5] @ ''es'',
      condicoes = [(''perfil_arbitro'', ''Rigoroso'')],
      total_amostras = 10, acertos = 8, taxa_acerto = 80, nivel = ''Ouro'', cor = ''#ffd700'',
      descricao = [CHR 0xC3, CHR 0x81] @ ''rbitro=Rigoroso''\<rparr>]"
proof -
  have "descobrir_regras corpus_10 =
    [gerar_descricao \<lparr>id_regra = 1,
       mercado_regra = ''Over 3.5 Cart'' @ [CHR 0xC3, CHR 0xB5] @ ''es'',
       condicoes = [(''perfil_arbitro'', ''Rigoroso'')],
       total_amostras = 10, acertos = 8, taxa_acerto = 80, nivel = ''Ouro'',
       cor = ''#ffd700'', descricao = []\<rparr>]"
  proof (rule descobrir_regras_fator_unico)
    show "length corpus_10 = 10" by (simp add: corpus_10_def)
    show "length (filter (\<lambda>r. acertou (resultado r)) corpus_10) = 8"
      by (simp add: corpus_10_def registro_sintetico_def)
    show "\<forall>r \<in> set corpus_10.
        mercado (resultado r) = ''Over 3.5 Cart'' @ [CHR 0xC3, CHR 0xB5] @ ''es''"
      by (simp add: corpus_10_def registro_sintetico_def)
    show "''Over 3.5 Cart'' @ [CHR 0xC3, CHR 0xB5] @ ''es'' \<notin> set MERCADOS_EXCLUIDOS_REGRAS"
      by (simp add: MERCADOS_EXCLUIDOS_REGRAS_def)
    show "''perfil_arbitro'' \<in> set FATORES_ANALISE" by (simp add: FATORES_ANALISE_def)
    show "\<forall>r \<in> set corpus_10. getattr_partida (partida r) ''perfil_arbitro'' = Some ''Rigoroso''"
      by (simp add: corpus_10_def registro_sintetico_def partida_sintetica_def
          getattr_partida_def)
    show "''Rigoroso'' \<noteq> []" by simp
    show "''Rigoroso'' \<noteq> ''Desconhecido''" by simp
    show "\<forall>r \<in> set corpus_10. \<forall>f' \<in> set FATORES_ANALISE. f' \<noteq> ''perfil_arbitro'' \<longrightarrow>
              getattr_partida (partida r) f' = None
              \<or> getattr_partida (partida r) f' = Some []
              \<or> getattr_partida (partida r) f' = Some ''Desconhecido''"
      by (simp add: corpus_10_def registro_sintetico_def partida_sintetica_def
          getattr_partida_def FATORES_ANALISE_def)
  qed
  then show ?thesis by (simp add: gerar_descricao_def mapa_nomes_def)
qed

subsection \<open>Thresholds of discovered rules\<close>




subsection \<open>The factor \<open>faixa_prob\<close> never occurs in a discovered rule\<close>

text \<open>
  Claim C10. For every corpus of learning records, no rule that rule discovery returns has
  the factor \<open>faixa_prob\<close> among its conditions: the miner reads the factor from the match
  snapshot, which has no such attribute.
\<close>

theorem descobrir_regras_sem_faixa_prob:
  "\<forall>regra \<in> set (descobrir_regras registros). ''faixa_prob'' \<notin> fst ` set (condicoes regra)"
proof
  fix regra assume "regra \<in> set (descobrir_regras registros)"
  from descobrir_regras_origem [OF this] obtain r0 j m cg fatores p where
    eq: "regra = gerar_descricao (r0\<lparr>id_regra := j\<rparr>)"
    and r0: "r0 \<in> set (analisar_grupo m cg)" and cg: "fst cg = extrair_valores p fatores"
    by blast
  from analisar_grupo_regra [OF r0] cg have "condicoes r0 = extrair_valores p fatores" by simp
  with eq have "condicoes regra = extrair_valores p fatores"
    by (simp add: gerar_descricao_campos)
  then show "''faixa_prob'' \<notin> fst ` set (condicoes regra)"
    by (simp add: extrair_valores_sem_faixa_prob)
qed

theorem descobrir_regras_sem_faixa_prob_witness:
  "descobrir_regras corpus_10 \<noteq> []
   \<and> ''faixa_prob'' \<notin> fst ` set (condicoes (hd (descobrir_regras corpus_10)))"
  using descobrir_regras_sem_faixa_prob [of corpus_10]
  by (simp add: descobrir_regras_corpus_10)

subsection \<open>Redundancy elimination\<close>

lemma filtrar_laco_append:
  "filtrar_laco filtradas (xs @ ys) = filtrar_laco (filtrar_laco filtradas xs) ys"
  by (induction xs arbitrary: filtradas) auto

lemma eh_subconjunto_iff:
  assumes "distinct (map fst maior)"
  shows "eh_subconjunto menor maior \<longleftrightarrow> set menor \<subseteq> set maior"
  using assms by (auto simp: eh_subconjunto_def list_all_iff)

text \<open>
  Claim C3. For the two rules of one market \<open>A = {f1: v1}\<close> (support 20, hit rate 80) and
  \<open>B = {f1: v1, f2: v2}\<close> (support 10, hit rate 85), redundancy filtering of the list
  \<open>[A, B]\<close> returns exactly one rule; it is \<open>B\<close>, in either input order.
\<close>

theorem filtrar_redundantes_A_B:
  "filtrar_redundantes [regra_A, regra_B] = [regra_B]
   \<and> filtrar_redundantes [regra_B, regra_A] = [regra_B]
   \<and> length (filtrar_redundantes [regra_A, regra_B]) = 1"
  by (simp add: filtrar_redundantes_def regra_A_def regra_B_def eh_subconjunto_def)

text \<open>
  Claim C2, as stated, fails. On \<open>[A, B]\<close> the code keeps \<open>B\<close> alone, while the filter the
  claim describes (discard a rule when an accepted rule's conditions are a subset of its own)
  keeps both: after the sort \<open>B\<close> is accepted first, and the conditions of \<open>B\<close> are not a
  subset of those of \<open>A\<close>.
\<close>

theorem filtrar_redundantes_spec_counterexample:
  "filtrar_redundantes [regra_A, regra_B] = [regra_B]
   \<and> filtrar_redundantes_spec [regra_A, regra_B] = [regra_B, regra_A]"
  by (simp add: filtrar_redundantes_def filtrar_redundantes_spec_def regra_A_def regra_B_def
      eh_subconjunto_def)

text \<open>
  Claim C2, amended. The rules are sorted by descending condition count (stable), and in
  that order a rule is discarded if and only if its own condition set is a subset of the
  condition set of some already accepted rule. For any position of the sorted list, with
  \<open>antes\<close> the rules before it and \<open>depois\<close> the rules after it: the rules before have at
  least as many conditions and the rules after at most as many; the result of the whole
  filter is the loop continued from the rules accepted up to that position; and the rule
  at that position is appended to the accepted rules exactly when no accepted rule's
  conditions include all of its own.
\<close>

theorem filtrar_redundantes_subconjunto:
  assumes dict: "\<forall>r \<in> set regras. distinct (map fst (condicoes r))"
    and pos: "sort_key (\<lambda>r. - int (length (condicoes r))) regras = antes @ regra # depois"
  shows "(\<forall>a \<in> set antes. length (condicoes regra) \<le> length (condicoes a))
    \<and> (\<forall>d \<in> set depois. length (condicoes d) \<le> length (condicoes regra))
    \<and> filtrar_redundantes regras = filtrar_laco (filtrar_laco [] (antes @ [regra])) depois
    \<and> filtrar_laco [] (antes @ [regra]) =
         (if \<exists>aceita \<in> set (filtrar_laco [] antes). set (condicoes regra) \<subseteq> set (condicoes aceita)
          then filtrar_laco [] antes
          else filtrar_laco [] antes @ [regra])"
proof (intro conjI)
  let ?k = "\<lambda>r. - int (length (condicoes r))"
  have "sorted (map ?k (sort_key ?k regras))" by (rule sorted_sort_key)
  with pos have s: "sorted (map ?k antes @ ?k regra # map ?k depois)" by simp
  from s show "\<forall>a \<in> set antes. length (condicoes regra) \<le> length (condicoes a)"
    by (auto simp: sorted_append)
  from s show "\<forall>d \<in> set depois. length (condicoes d) \<le> length (condicoes regra)"
    by (auto simp: sorted_append)
next
  from pos have "regras \<noteq> []" by auto
  then have "filtrar_redundantes regras = filtrar_laco [] (antes @ regra # depois)"
    by (simp add: filtrar_redundantes_def pos)
  also have "\<dots> = filtrar_laco [] ((antes @ [regra]) @ depois)" by simp
  also have "\<dots> = filtrar_laco (filtrar_laco [] (antes @ [regra])) depois"
    by (rule filtrar_laco_append)
  finally show "filtrar_redundantes regras = filtrar_laco (filtrar_laco [] (antes @ [regra])) depois" .
next
  have sub: "set (filtrar_laco [] antes) \<subseteq> set regras"
  proof -
    have "set (filtrar_laco [] antes) \<subseteq> set antes" using set_filtrar_laco [of "[]" antes] by simp
    also have "\<dots> \<subseteq> set (antes @ regra # depois)" by auto
    also have "\<dots> = set regras" using pos [symmetric] by simp
    finally show ?thesis .
  qed
  have "list_ex (\<lambda>aceita. eh_subconjunto (condicoes regra) (condicoes aceita)) (filtrar_laco [] antes)
     \<longleftrightarrow> (\<exists>aceita \<in> set (filtrar_laco [] antes). set (condicoes regra) \<subseteq> set (condicoes aceita))"
  proof -
    have "\<forall>aceita \<in> set (filtrar_laco [] antes).
        eh_subconjunto (condicoes regra) (condicoes aceita)
          \<longleftrightarrow> set (condicoes regra) \<subseteq> set (condicoes aceita)"
      using sub dict eh_subconjunto_iff by blast
    then show ?thesis by (simp add: list_ex_iff)
  qed
  then show "filtrar_laco [] (antes @ [regra]) =
         (if \<exists>aceita \<in> set (filtrar_laco [] antes). set (condicoes regra) \<subseteq> set (condicoes aceita)
          then filtrar_laco [] antes
          else filtrar_laco [] antes @ [regra])"
    by (simp add: filtrar_laco_append)
qed

theorem filtrar_redundantes_subconjunto_witness:
  "distinct (map fst (condicoes regra_A)) \<and> distinct (map fst (condicoes regra_B))
   \<and> sort_key (\<lambda>r. - int (length (condicoes r))) [regra_A, regra_B] = [regra_B] @ regra_A # []
   \<and> filtrar_redundantes [regra_A, regra_B] = filtrar_laco (filtrar_laco [] ([regra_B] @ [regra_A])) []
   \<and> filtrar_laco [] ([regra_B] @ [regra_A]) = [regra_B]"
proof -
  have d: "\<forall>r \<in> set [regra_A, regra_B]. distinct (map fst (condicoes r))"
    by (simp add: regra_A_def regra_B_def)
  have s: "sort_key (\<lambda>r. - int (length (condicoes r))) [regra_A, regra_B] = [regra_B] @ regra_A # []"
    by (simp add: regra_A_def regra_B_def)
  from filtrar_redundantes_subconjunto [OF d s] s show ?thesis
    by (simp add: regra_A_def regra_B_def)
qed

section \<open>Properties of the \<open>\<lambda>\<close> pipeline\<close>

lemma clamp_limites: "2 \<le> max 2 (min 10 x) \<and> max 2 (min 10 x) \<le> (10::real)"
  by simp

lemma calcular_peso_shrinkage_limites:
  "3 / 10 \<le> calcular_peso_shrinkage q n \<and> calcular_peso_shrinkage q n \<le> 95 / 100"
  unfolding calcular_peso_shrinkage_def Let_def by simp

lemma peso_shrinkage_calcular_lambda:
  "peso_shrinkage (calcular_lambda lower p) =
     calcular_peso_shrinkage (avaliar_qualidade_dados lower p)
       (DadosArbitro.n_jogos_disponiveis (arbitro p))"
  unfolding calcular_lambda_def Let_def
  by (simp only: CalculoLambda.select_convs)

lemma lambda_shrunk_calcular_lambda:
  "lambda_shrunk (calcular_lambda lower p) =
     max 2 (min 10 (peso_shrinkage (calcular_lambda lower p) * lambda_final_raw (calcular_lambda lower p)
        + (1 - peso_shrinkage (calcular_lambda lower p)) * lambda_base (calcular_lambda lower p)))"
  by (simp only: calcular_lambda_def Let_def CalculoLambda.select_convs)

text \<open>
  Claim C4. For every match input the shrinkage weight returned by
  \<^const>\<open>calcular_peso_shrinkage\<close> lies in \<open>[0.3, 0.95]\<close>, and the field \<open>lambda_shrunk\<close> of the
  result of \<^const>\<open>calcular_lambda\<close> lies in \<open>[2, 10]\<close>.
\<close>

theorem peso_e_lambda_shrunk_limites:
  "3 / 10 \<le> calcular_peso_shrinkage q n \<and> calcular_peso_shrinkage q n \<le> 95 / 100
  \<and> 2 \<le> lambda_shrunk (calcular_lambda lower p) \<and> lambda_shrunk (calcular_lambda lower p) \<le> 10"
  using calcular_peso_shrinkage_limites [of q n] clamp_limites
  by (simp only: lambda_shrunk_calcular_lambda)

text \<open>
  Claim C9. On a match with league baseline 5.4, referee averages 6.2 (5 games) and 5.0
  (10 games) and two positive team averages that sum to 4.5, the pipeline gives weighted
  referee average 5.72, referee delta 0.256, team delta -0.54, recency factor 1.24 capped
  to 1.05, recency adjustment 0.27 and raw \<open>\<lambda>\<close> 5.386. The shrunk \<open>\<lambda>\<close> is the shrinkage
  formula \<open>w * 5.386 + (1 - w) * 5.4\<close> at the weight \<open>w\<close> of the match (the clamp to
  \<open>[2, 10]\<close> does not act), so at \<open>w = 0.7\<close> it is \<open>0.7 * 5.386 + 0.3 * 5.4\<close>; and whenever
  the weight is 0.7 to two decimals the shrunk \<open>\<lambda>\<close> is 5.39 to two decimals. The decimals
  of the claim are read as exact values for the steps up to the raw \<open>\<lambda>\<close>, where they are
  exact in real arithmetic, and as two-decimal renderings for the weight and the shrunk
  \<open>\<lambda>\<close>.
\<close>

theorem lambda_exemplo:
  assumes "media_amarelos (baseline p) = 54 / 10"
    and "media_amarelos_5j (arbitro p) = 62 / 10"
    and "media_amarelos_10j (arbitro p) = 5"
    and "amarelos_pro (time_mandante p) > 0"
    and "amarelos_pro (time_visitante p) > 0"
    and "amarelos_pro (time_mandante p) + amarelos_pro (time_visitante p) = 45 / 10"
  shows "media_arbitro_ponderada (calcular_lambda lower p) = 572 / 100
    \<and> delta_arbitro (calcular_lambda lower p) = 256 / 1000
    \<and> delta_times (calcular_lambda lower p) = - (54 / 100)
    \<and> fator_recencia_raw (calcular_lambda lower p) = 124 / 100
    \<and> fator_recencia_capado (calcular_lambda lower p) = 105 / 100
    \<and> ajuste_recencia (calcular_lambda lower p) = 27 / 100
    \<and> lambda_final_raw (calcular_lambda lower p) = 5386 / 1000
    \<and> lambda_shrunk (calcular_lambda lower p)
        = peso_shrinkage (calcular_lambda lower p) * (5386 / 1000)
          + (1 - peso_shrinkage (calcular_lambda lower p)) * (54 / 10)
    \<and> (\<bar>peso_shrinkage (calcular_lambda lower p) - 7 / 10\<bar> \<le> 5 / 1000
         \<longrightarrow> \<bar>lambda_shrunk (calcular_lambda lower p) - 539 / 100\<bar> \<le> 5 / 1000)"
proof -
  let ?c = "calcular_lambda lower p"
  have pos: "\<not> amarelos_pro (time_mandante p) \<le> 0" "\<not> amarelos_pro (time_visitante p) \<le> 0"
    using assms(4,5) by simp_all
  have 1: "media_arbitro_ponderada ?c = 572 / 100"
    unfolding calcular_lambda_def Let_def
    by (simp only: CalculoLambda.select_convs) (simp add: assms(1-3))
  have 2: "delta_arbitro ?c = 256 / 1000"
    unfolding calcular_lambda_def Let_def
    by (simp only: CalculoLambda.select_convs) (simp add: assms(1-3))
  have 3: "delta_times ?c = - (54 / 100)"
    unfolding calcular_lambda_def Let_def
    by (simp only: CalculoLambda.select_convs) (simp add: assms(1,6) pos)
  have 4: "fator_recencia_raw ?c = 124 / 100"
    unfolding calcular_lambda_def Let_def
    by (simp only: CalculoLambda.select_convs) (simp add: assms(1-3))
  have 5: "fator_recencia_capado ?c = 105 / 100"
    unfolding calcular_lambda_def Let_def
    by (simp only: CalculoLambda.select_convs) (simp add: assms(1-3))
  have 6: "ajuste_recencia ?c = 27 / 100"
    unfolding calcular_lambda_def Let_def
    by (simp only: CalculoLambda.select_convs) (simp add: assms(1-3))
  have 7: "lambda_final_raw ?c = 5386 / 1000"
    unfolding calcular_lambda_def Let_def
    by (simp only: CalculoLambda.select_convs) (simp add: assms(1-3,6) pos)
  have 9: "lambda_base ?c = 54 / 10"
    unfolding calcular_lambda_def Let_def
    by (simp only: CalculoLambda.select_convs) (simp add: assms(1))
  define w where "w = peso_shrinkage ?c"
  have wl: "3 / 10 \<le> w \<and> w \<le> 95 / 100"
    unfolding w_def peso_shrinkage_calcular_lambda by (rule calcular_peso_shrinkage_limites)
  have "lambda_shrunk ?c = max 2 (min 10 (w * (5386 / 1000) + (1 - w) * (54 / 10)))"
    using lambda_shrunk_calcular_lambda [of lower p] by (simp only: 7 9 w_def)
  also have "\<dots> = w * (5386 / 1000) + (1 - w) * (54 / 10)"
  proof -
    from wl have w1: "3 / 10 \<le> w" and w2: "w \<le> 95 / 100" by simp_all
    have e: "w * (5386 / 1000) + (1 - w) * (54 / 10) = 54 / 10 - (14 / 1000) * w"
      by (simp add: field_simps)
    from w1 w2 have "2 \<le> w * (5386 / 1000) + (1 - w) * (54 / 10)" unfolding e by linarith
    moreover from w1 w2 have "w * (5386 / 1000) + (1 - w) * (54 / 10) \<le> 10"
      unfolding e by linarith
    ultimately show ?thesis by simp
  qed
  finally have 8: "lambda_shrunk ?c = w * (5386 / 1000) + (1 - w) * (54 / 10)" .
  have 10: "\<bar>lambda_shrunk ?c - 539 / 100\<bar> \<le> 5 / 1000" if "\<bar>w - 7 / 10\<bar> \<le> 5 / 1000"
  proof -
    have e: "w * (5386 / 1000) + (1 - w) * (54 / 10) = 54 / 10 - (14 / 1000) * w"
      by (simp add: field_simps)
    from that have "w - 7 / 10 \<le> 5 / 1000" and "- (w - 7 / 10) \<le> 5 / 1000"
      by (simp_all only: abs_le_iff)
    then have b1: "695 / 1000 \<le> w" and b2: "w \<le> 705 / 1000" by linarith+
    show ?thesis unfolding 8 e using b1 b2 by (intro abs_leI) linarith+
  qed
  from 1 2 3 4 5 6 7 8 10 show ?thesis unfolding w_def by blast
qed

theorem lambda_exemplo_witness:
  "media_amarelos (baseline partida_exemplo) = 54 / 10
    \<and> media_amarelos_5j (arbitro partida_exemplo) = 62 / 10
    \<and> media_amarelos_10j (arbitro partida_exemplo) = 5
    \<and> amarelos_pro (time_mandante partida_exemplo) > 0
    \<and> amarelos_pro (time_visitante partida_exemplo) > 0
    \<and> amarelos_pro (time_mandante partida_exemplo)
        + amarelos_pro (time_visitante partida_exemplo) = 45 / 10
    \<and> peso_shrinkage (calcular_lambda id partida_exemplo) = 11204363709 / 16000000000
    \<and> \<bar>peso_shrinkage (calcular_lambda id partida_exemplo) - 7 / 10\<bar> \<le> 5 / 1000
    \<and> lambda_final_raw (calcular_lambda id partida_exemplo) = 5386 / 1000
    \<and> \<bar>lambda_shrunk (calcular_lambda id partida_exemplo) - 539 / 100\<bar> \<le> 5 / 1000"
proof -
  have w: "peso_shrinkage (calcular_lambda id partida_exemplo) = 11204363709 / 16000000000"
    unfolding peso_shrinkage_calcular_lambda
    by (simp add: calcular_peso_shrinkage_def avaliar_qualidade_dados_def Let_def
        partida_exemplo_def peso_qualidade_def PESOS_QUALIDADE_def DISPERSAO_POR_LIGA_def)
  have a: "\<bar>(11204363709 / 16000000000 :: real) - 7 / 10\<bar> \<le> 5 / 1000" by simp
  have h1: "media_amarelos (baseline partida_exemplo) = 54 / 10"
    and h2: "media_amarelos_5j (arbitro partida_exemplo) = 62 / 10"
    and h3: "media_amarelos_10j (arbitro partida_exemplo) = 5"
    and h4: "amarelos_pro (time_mandante partida_exemplo) > 0"
    and h5: "amarelos_pro (time_visitante partida_exemplo) > 0"
    and h6: "amarelos_pro (time_mandante partida_exemplo)
        + amarelos_pro (time_visitante partida_exemplo) = 45 / 10"
    by (simp_all add: partida_exemplo_def)
  from lambda_exemplo [OF h1 h2 h3 h4 h5 h6, of id] w a h1 h2 h3 h4 h5 h6 show ?thesis
    by simp
qed

section \<open>Properties of the distributions\<close>

text \<open>
  Claim C7. \<^const>\<open>poisson_pmf\<close> returns 1 when \<open>\<lambda> \<le> 0\<close> and \<open>k = 0\<close>, and 0 when \<open>\<lambda> \<le> 0\<close> and
  \<open>k > 0\<close>. \<^const>\<open>negative_binomial_pmf\<close> returns 0 when \<open>r \<le> 0\<close>, when \<open>p\<close> is outside
  \<open>(0, 1)\<close> or when \<open>k < 0\<close>. Whatever the float primitives do, \<^const>\<open>negative_binomial_pmf\<close>
  returns a value and raises nothing; an exception anywhere in the body of its
  \<^verbatim>\<open>try\<close>, and so an overflow of the log-gamma call, gives the value 0.
\<close>

theorem pmf_casos_degenerados:
  "(lam \<le> 0 \<longrightarrow> poisson_pmf M 0 lam = Inr 1)
   \<and> (lam \<le> 0 \<and> k > 0 \<longrightarrow> poisson_pmf M k lam = Inr 0)
   \<and> (r \<le> 0 \<or> p \<le> 0 \<or> p \<ge> 1 \<or> k < 0 \<longrightarrow> negative_binomial_pmf M k r p = Inr 0)
   \<and> (\<exists>v. negative_binomial_pmf M k r p = Inr v)
   \<and> (\<forall>e. negbin_corpo M k r p = Inl e \<longrightarrow> negative_binomial_pmf M k r p = Inr 0)
   \<and> (\<forall>e. math_lgamma M r = Inl e \<longrightarrow> negative_binomial_pmf M k r p = Inr 0)"
proof (intro conjI allI impI)
  show "\<exists>v. negative_binomial_pmf M k r p = Inr v"
    by (auto simp: negative_binomial_pmf_def split: sum.splits erro_mat.splits)
next
  fix e assume "negbin_corpo M k r p = Inl e"
  then show "negative_binomial_pmf M k r p = Inr 0"
    by (cases e) (simp_all add: negative_binomial_pmf_def)
next
  fix e assume "math_lgamma M r = Inl e"
  then have "\<exists>e'. negbin_corpo M k r p = Inl e'"
    by (auto simp: negbin_corpo_def entao_def split: sum.splits)
  then obtain e' where "negbin_corpo M k r p = Inl e'" by blast
  then show "negative_binomial_pmf M k r p = Inr 0"
    by (cases e') (simp_all add: negative_binomial_pmf_def)
qed (auto simp: poisson_pmf_def negative_binomial_pmf_def)

theorem pmf_casos_degenerados_witness:
  "(0 :: real) \<le> 0 \<and> poisson_pmf matematica_estouro 0 0 = Inr 1
   \<and> (- 1 :: real) \<le> 0 \<and> (3 :: int) > 0 \<and> poisson_pmf matematica_estouro 3 (- 1) = Inr 0
   \<and> negative_binomial_pmf matematica_estouro 3 0 (1 / 2) = Inr 0
   \<and> math_lgamma matematica_estouro 3 = Inl OverflowError
   \<and> negative_binomial_pmf matematica_estouro 3 3 (1 / 2) = Inr 0"
  using pmf_casos_degenerados [of 0 matematica_estouro 3 0 "1 / 2"]
    pmf_casos_degenerados [of "- 1" matematica_estouro 3 3 "1 / 2"]
  by (simp add: matematica_estouro_def)

subsection \<open>Percentiles\<close>

lemma tabela_cdf_chaves: "tabela_cdf cdf ks = Inr t \<Longrightarrow> map fst t = ks"
  by (induction ks arbitrary: t) (auto split: sum.splits)

lemma tabela_cdf_total:
  "(\<And>k. \<exists>c. cdf k = Inr c) \<Longrightarrow> \<exists>t. tabela_cdf cdf ks = Inr t"
proof (induction ks)
  case Nil
  then show ?case by simp
next
  case (Cons k ks)
  from Cons.prems obtain c where "cdf k = Inr c" by blast
  moreover from Cons obtain t where "tabela_cdf cdf ks = Inr t" by blast
  ultimately show ?case by simp
qed

lemma find_SomeD: "find P t = Some a \<Longrightarrow> a \<in> set t \<and> P a"
  by (induction t) (auto split: if_splits)

lemma find_ordem:
  assumes "sorted (map fst t)" and "\<And>x. Q x \<Longrightarrow> P x"
    and "find P t = Some a" and "find Q t = Some b"
  shows "fst a \<le> fst b"
  using assms
proof (induction t)
  case Nil
  then show ?case by simp
next
  case (Cons x t)
  show ?case
  proof (cases "P x")
    case True
    with Cons.prems(3) have "a = x" by simp
    moreover from Cons.prems(4) have "b \<in> set (x # t)" using find_SomeD by fastforce
    ultimately show ?thesis using Cons.prems(1) by auto
  next
    case False
    with Cons.prems(2) have "\<not> Q x" by blast
    with False Cons show ?thesis by simp
  qed
qed

lemma encontrar_percentil_mono:
  assumes s: "sorted (map fst t)" and le: "p \<le> q"
    and a: "encontrar_percentil t p = Inr a" and b: "encontrar_percentil t q = Inr b"
  shows "a \<le> b"
proof (cases "find (\<lambda>kc. q \<le> snd kc) t")
  case None
  with b have ne: "t \<noteq> []" and bl: "b = fst (last t)" by (auto split: if_splits)
  show ?thesis
  proof (cases "find (\<lambda>kc. p \<le> snd kc) t")
    case None
    with a ne have "a = fst (last t)" by simp
    with bl show ?thesis by simp
  next
    case (Some x)
    with a have ax: "a = fst x" by simp
    from Some have "x \<in> set t" using find_SomeD by fastforce
    then obtain i where i: "i < length t" "t ! i = x" by (auto simp: in_set_conv_nth)
    from ne have "last t = t ! (length t - 1)" by (simp add: last_conv_nth)
    moreover from s i ne have "map fst t ! i \<le> map fst t ! (length t - 1)"
      by (intro sorted_nth_mono) auto
    ultimately show ?thesis using ax bl i ne by simp
  qed
next
  case (Some y)
  with b have bq: "b = fst y" by simp
  have "\<exists>x. find (\<lambda>kc. p \<le> snd kc) t = Some x"
  proof (cases "find (\<lambda>kc. p \<le> snd kc) t")
    case None
    then have "\<forall>x \<in> set t. \<not> p \<le> snd x" by (auto simp: find_None_iff)
    moreover from Some have "y \<in> set t \<and> q \<le> snd y" by (rule find_SomeD)
    ultimately show ?thesis using le by force
  next
    case (Some x)
    then show ?thesis by blast
  qed
  then obtain x where x: "find (\<lambda>kc. p \<le> snd kc) t = Some x" by blast
  with a have ax: "a = fst x" by simp
  have "fst x \<le> fst y"
    by (rule find_ordem [OF s _ x Some]) (use le in auto)
  with ax bq show ?thesis by simp
qed

lemma encontrar_percentil_total: "t \<noteq> [] \<Longrightarrow> \<exists>k. encontrar_percentil t p = Inr k"
  by (auto split: option.splits)

lemma acumular_total:
  "(\<And>i. \<exists>v. pmf i = Inr v) \<Longrightarrow> \<exists>s. acumular pmf acc ks = Inr s"
proof (induction ks arbitrary: acc)
  case Nil
  then show ?case by simp
next
  case (Cons k ks)
  from Cons.prems obtain v where v: "pmf k = Inr v" by blast
  from Cons.IH [OF Cons.prems, of "acc + v"] v show ?case by simp
qed

lemma negative_binomial_pmf_total: "\<exists>v. negative_binomial_pmf M k r p = Inr v"
  by (auto simp: negative_binomial_pmf_def split: sum.splits erro_mat.splits)

lemma calcular_cdf_negbin_total:
  assumes "r > 0"
  shows "\<exists>c. calcular_cdf M k lam r True = Inr c"
proof -
  obtain s where "acumular (\<lambda>i. negative_binomial_pmf M i r (snd (converter_lambda_para_negbin lam r))) 0 [0..k] = Inr s"
    using acumular_total [of "\<lambda>i. negative_binomial_pmf M i r (snd (converter_lambda_para_negbin lam r))"]
      negative_binomial_pmf_total by blast
  with assms show ?thesis by (simp add: calcular_cdf_def entao_def Let_def)
qed

lemma calcular_percentis_Inr:
  assumes "calcular_percentis M lam r u = Inr ic"
  shows "\<exists>t. tabela_cdf (\<lambda>k. calcular_cdf M k lam r u) [0..py_int (lam * 3) + 10] = Inr t
    \<and> encontrar_percentil t (10 / 100) = Inr (p10 ic)
    \<and> encontrar_percentil t (25 / 100) = Inr (p25 ic)
    \<and> encontrar_percentil t (50 / 100) = Inr (p50 ic)
    \<and> encontrar_percentil t (75 / 100) = Inr (p75 ic)
    \<and> encontrar_percentil t (90 / 100) = Inr (p90 ic)
    \<and> variancia_alta ic = (p90 ic - p10 ic > 6)"
  using assms unfolding calcular_percentis_def Let_def entao_def
  by (auto split: sum.splits simp del: encontrar_percentil.simps)

text \<open>
  Claim C6. For every \<open>\<lambda>\<close> and \<open>r\<close>, an interval returned by \<^const>\<open>calcular_percentis\<close>
  satisfies \<open>p10 \<le> p25 \<le> p50 \<le> p75 \<le> p90\<close>, and its high-variance flag is true if and
  only if \<open>p90 - p10 > 6\<close>. An interval is returned whenever the scan bound
  \<open>int(3 \<lambda>) + 10\<close> is not negative and the Negative Binomial branch is taken (\<open>r > 0\<close> with
  \<^verbatim>\<open>usar_negbin\<close>, as every caller passes it).
\<close>

theorem calcular_percentis_ordenados:
  "(\<forall>ic. calcular_percentis M lam r usar_negbin = Inr ic \<longrightarrow>
      p10 ic \<le> p25 ic \<and> p25 ic \<le> p50 ic \<and> p50 ic \<le> p75 ic \<and> p75 ic \<le> p90 ic
      \<and> (variancia_alta ic \<longleftrightarrow> p90 ic - p10 ic > 6))
   \<and> (0 \<le> py_int (lam * 3) + 10 \<and> r > 0 \<longrightarrow>
        (\<exists>ic. calcular_percentis M lam r True = Inr ic))"
proof (intro conjI allI impI)
  fix ic assume "calcular_percentis M lam r usar_negbin = Inr ic"
  from calcular_percentis_Inr [OF this] obtain t where
    t: "tabela_cdf (\<lambda>k. calcular_cdf M k lam r usar_negbin) [0..py_int (lam * 3) + 10] = Inr t"
    and q: "encontrar_percentil t (10 / 100) = Inr (p10 ic)"
      "encontrar_percentil t (25 / 100) = Inr (p25 ic)"
      "encontrar_percentil t (50 / 100) = Inr (p50 ic)"
      "encontrar_percentil t (75 / 100) = Inr (p75 ic)"
      "encontrar_percentil t (90 / 100) = Inr (p90 ic)"
    and v: "variancia_alta ic = (p90 ic - p10 ic > 6)"
    by blast
  from tabela_cdf_chaves [OF t] have s: "sorted (map fst t)" by simp
  show "p10 ic \<le> p25 ic" by (rule encontrar_percentil_mono [OF s _ q(1) q(2)]) simp
  show "p25 ic \<le> p50 ic" by (rule encontrar_percentil_mono [OF s _ q(2) q(3)]) simp
  show "p50 ic \<le> p75 ic" by (rule encontrar_percentil_mono [OF s _ q(3) q(4)]) simp
  show "p75 ic \<le> p90 ic" by (rule encontrar_percentil_mono [OF s _ q(4) q(5)]) simp
  from v show "variancia_alta ic \<longleftrightarrow> p90 ic - p10 ic > 6" by simp
next
  assume h: "0 \<le> py_int (lam * 3) + 10 \<and> r > 0"
  then have r: "r > 0" by simp
  obtain t where t: "tabela_cdf (\<lambda>k. calcular_cdf M k lam r True) [0..py_int (lam * 3) + 10] = Inr t"
    using tabela_cdf_total [of "\<lambda>k. calcular_cdf M k lam r True"] calcular_cdf_negbin_total [OF r]
    by blast
  from tabela_cdf_chaves [OF t] h have ne: "t \<noteq> []" by (auto simp: upto.simps)
  from encontrar_percentil_total [OF ne] obtain q10 q25 q50 q75 q90 where
    "encontrar_percentil t (10 / 100) = Inr q10" "encontrar_percentil t (25 / 100) = Inr q25"
    "encontrar_percentil t (50 / 100) = Inr q50" "encontrar_percentil t (75 / 100) = Inr q75"
    "encontrar_percentil t (90 / 100) = Inr q90" by metis
  with t show "\<exists>ic. calcular_percentis M lam r True = Inr ic"
    unfolding calcular_percentis_def Let_def entao_def
    by (simp del: encontrar_percentil.simps)
qed

theorem calcular_percentis_ordenados_witness:
  "0 \<le> py_int (0 * 3) + 10 \<and> (0 :: real) < 3
   \<and> calcular_percentis matematica_estouro 0 3 True =
     Inr \<lparr>p10 = 10, p25 = 10, p50 = 10, p75 = 10, p90 = 10, variancia_alta = False\<rparr>"
  using calcular_percentis_ordenados [of matematica_estouro 0 3 True]
  by (simp add: calcular_percentis_def calcular_cdf_def converter_lambda_para_negbin_def
      negative_binomial_pmf_def negbin_corpo_def float_de_int_def matematica_estouro_def
      py_int_def entao_def Let_def upto.simps)

section \<open>Properties of the calibrator\<close>

subsection \<open>Below ten observations\<close>

lemma treinar_poucos:
  "length (pontos_x c) < 10 \<Longrightarrow> treinar c = Inr (c\<lparr>mapa_calibracao := None, treinado := True\<rparr>)"
  by (simp add: treinar_def)

lemma treinar_pontos:
  assumes "treinar c = Inr c'"
  shows "pontos_x c' = pontos_x c"
proof (cases "length (pontos_x c) < 10")
  case True
  with assms show ?thesis by (auto simp: treinar_def)
next
  case False
  with assms show ?thesis
    by (auto simp: treinar_def entao_def Let_def split: sum.splits)
qed

lemma calibrar_estado:
  assumes "calibrar c p = Inr (v, c')"
  shows "c' = c \<or> treinar c = Inr c'"
  using assms
  by (auto simp: calibrar_def entao_def split: if_splits sum.splits option.splits)

lemma alcancavel_poucos_sem_mapa:
  "alcancavel c \<Longrightarrow> length (pontos_x c) < 10 \<Longrightarrow> mapa_calibracao c = None"
proof (induction rule: alcancavel.induct)
  case (alc_novo m)
  then show ?case by (simp add: novo_calibrador_def)
next
  case (alc_ponto c p hit)
  then show ?case by (simp add: adicionar_ponto_def)
next
  case (alc_treinar c c')
  from alc_treinar.hyps(2) have px: "pontos_x c' = pontos_x c" by (rule treinar_pontos)
  with alc_treinar.prems have "length (pontos_x c) < 10" by simp
  from treinar_poucos [OF this] alc_treinar.hyps(2) show ?case by auto
next
  case (alc_calibrar c p v c')
  from calibrar_estado [OF alc_calibrar.hyps(2)] show ?case
  proof
    assume "c' = c"
    with alc_calibrar show ?thesis by simp
  next
    assume t: "treinar c = Inr c'"
    then have "pontos_x c' = pontos_x c" by (rule treinar_pontos)
    with alc_calibrar.prems have "length (pontos_x c) < 10" by simp
    from treinar_poucos [OF this] t show ?thesis by auto
  qed
next
  case (alc_recarregar c)
  then show ?case by (simp add: recarregar_def)
qed

text \<open>
  Claim C5. For every calibrator the methods of the class can produce whose observation
  list holds fewer than 10 points, and for every raw probability \<open>p\<close>, training installs
  the identity mapping (no map) and \<^const>\<open>calibrar\<close> returns \<open>p\<close> unchanged.
\<close>

theorem calibrar_identidade:
  assumes "alcancavel c" and "length (pontos_x c) < 10"
  shows "treinar c = Inr (c\<lparr>mapa_calibracao := None, treinado := True\<rparr>)
    \<and> calibrar c p = Inr (p, if treinado c then c else c\<lparr>mapa_calibracao := None, treinado := True\<rparr>)"
proof
  show "treinar c = Inr (c\<lparr>mapa_calibracao := None, treinado := True\<rparr>)"
    using assms(2) by (rule treinar_poucos)
next
  from assms have "mapa_calibracao c = None" by (rule alcancavel_poucos_sem_mapa)
  then show "calibrar c p = Inr (p, if treinado c then c else c\<lparr>mapa_calibracao := None, treinado := True\<rparr>)"
    using treinar_poucos [OF assms(2)] by (simp add: calibrar_def entao_def)
qed

theorem calibrar_identidade_witness:
  "alcancavel (adicionar_ponto (novo_calibrador ''Over 3.5'') 60 True)
   \<and> length (pontos_x (adicionar_ponto (novo_calibrador ''Over 3.5'') 60 True)) < 10
   \<and> calibrar (adicionar_ponto (novo_calibrador ''Over 3.5'') 60 True) 62 =
       Inr (62, \<lparr>mercado_calibrador = ''Over 3.5'', pontos_x = [60], pontos_y = [1],
                 treinado = True, mapa_calibracao = None\<rparr>)"
proof -
  have a: "alcancavel (adicionar_ponto (novo_calibrador ''Over 3.5'') 60 True)"
    by (intro alc_ponto alc_novo)
  have l: "length (pontos_x (adicionar_ponto (novo_calibrador ''Over 3.5'') 60 True)) < 10"
    by (simp add: adicionar_ponto_def novo_calibrador_def)
  from calibrar_identidade [OF a l, of 62] a l show ?thesis
    by (simp add: adicionar_ponto_def novo_calibrador_def)
qed

subsection \<open>The single smoothing pass\<close>

lemma set_update_subset: "set (AList.update k v al) \<subseteq> insert (k, v) (set al)"
  by (induction al) auto

lemma grupos_append_nao_vazios:
  assumes "\<forall>bv \<in> set bins. snd bv \<noteq> []"
  shows "\<forall>bv \<in> set (grupos_append bins k y). snd bv \<noteq> []"
proof
  fix bv assume "bv \<in> set (grupos_append bins k y)"
  then have "bv = (k, case map_of bins k of None \<Rightarrow> [y] | Some g \<Rightarrow> g @ [y]) \<or> bv \<in> set bins"
    unfolding grupos_append_def using set_update_subset by fastforce
  with assms show "snd bv \<noteq> []" by (auto split: option.splits)
qed

lemma agrupar_bins_nao_vazios:
  "\<forall>bv \<in> set bins. snd bv \<noteq> [] \<Longrightarrow> \<forall>bv \<in> set (agrupar_bins bins pares). snd bv \<noteq> []"
proof (induction pares arbitrary: bins)
  case Nil
  then show ?case by simp
next
  case (Cons xy pares)
  from Cons.prems have "\<forall>bv \<in> set (grupos_append bins (bin_idx_de (fst xy)) (snd xy)). snd bv \<noteq> []"
    by (rule grupos_append_nao_vazios)
  from Cons.IH [OF this] show ?case by simp
qed

lemma medias_bins_total:
  "\<forall>bv \<in> set bins. snd bv \<noteq> [] \<Longrightarrow> distinct (map fst mapa) \<Longrightarrow>
   \<exists>m. medias_bins mapa bins = Inr m \<and> distinct (map fst m)"
proof (induction bins arbitrary: mapa)
  case Nil
  then show ?case by simp
next
  case (Cons bv bins)
  let ?m = "AList.update (fst bv) (sum_list (snd bv) / real (length (snd bv)) * 100) mapa"
  have "distinct (map fst ?m)" using Cons.prems(2) by (rule distinct_update)
  moreover from Cons.prems(1) have "\<forall>bv \<in> set bins. snd bv \<noteq> []" by simp
  ultimately obtain m where "medias_bins ?m bins = Inr m \<and> distinct (map fst m)"
    using Cons.IH by blast
  with Cons.prems(1) show ?case by simp
qed

lemma dict_get_Inr: "k \<in> fst ` set m \<Longrightarrow> \<exists>v. dict_get m k = Inr v"
  by (cases "map_of m k") (auto simp: dict_get_def map_of_eq_None_iff)

lemma dict_get_update:
  "dict_get (AList.update k v m) k' = (if k' = k then Inr v else dict_get m k')"
  by (simp add: dict_get_def update_conv')

lemma chaves_update_presente:
  "k \<in> fst ` set m \<Longrightarrow> map fst (AList.update k v m) = map fst m"
  by (simp add: update_keys)

lemma suavizar_passo_chaves:
  assumes "chaves ! i \<in> fst ` set m" and "chaves ! (i - 1) \<in> fst ` set m"
  shows "\<exists>m'. suavizar_passo chaves m i = Inr m' \<and> map fst m' = map fst m"
proof -
  from dict_get_Inr [OF assms(1)] obtain va where va: "dict_get m (chaves ! i) = Inr va" by blast
  from dict_get_Inr [OF assms(2)] obtain vp where vp: "dict_get m (chaves ! (i - 1)) = Inr vp" by blast
  have "map fst (AList.update (chaves ! (i - 1)) x (AList.update (chaves ! i) y m)) = map fst m" for x y
  proof -
    have 1: "map fst (AList.update (chaves ! i) y m) = map fst m"
      using assms(1) by (rule chaves_update_presente)
    then have "chaves ! (i - 1) \<in> fst ` set (AList.update (chaves ! i) y m)"
      using assms(2) by (metis list.set_map)
    then show ?thesis using 1 by (simp add: chaves_update_presente)
  qed
  with va vp show ?thesis
    by (simp add: suavizar_passo_def entao_def Let_def)
qed

lemma suavizar_chaves:
  assumes "\<forall>i \<in> set idx. i < length chaves" and "set chaves \<subseteq> fst ` set m"
  shows "\<exists>m'. suavizar chaves m idx = Inr m' \<and> map fst m' = map fst m"
  using assms
proof (induction idx arbitrary: m)
  case Nil
  then show ?case by simp
next
  case (Cons i idx)
  from Cons.prems have "chaves ! i \<in> fst ` set m" "chaves ! (i - 1) \<in> fst ` set m"
    by (auto simp: subset_iff)
  from suavizar_passo_chaves [OF this] obtain m1 where
    m1: "suavizar_passo chaves m i = Inr m1" "map fst m1 = map fst m" by blast
  from m1(2) have "fst ` set m1 = fst ` set m" by (metis list.set_map)
  with Cons.prems have "set chaves \<subseteq> fst ` set m1" by simp
  moreover from Cons.prems have "\<forall>i \<in> set idx. i < length chaves" by simp
  ultimately obtain m' where "suavizar chaves m1 idx = Inr m' \<and> map fst m' = map fst m1"
    using Cons.IH by blast
  with m1 show ?case by simp
qed

lemma suavizar_snoc:
  "suavizar chaves m (idx @ [j]) =
     (case suavizar chaves m idx of Inl e \<Rightarrow> Inl e | Inr m' \<Rightarrow> suavizar_passo chaves m' j)"
  by (induction idx arbitrary: m) (auto split: sum.splits)

lemma suavizar_passo_ordena:
  assumes "suavizar_passo chaves m i = Inr m'" and "chaves ! (i - 1) \<noteq> chaves ! i"
  shows "\<exists>v1 v2. dict_get m' (chaves ! (i - 1)) = Inr v1 \<and> dict_get m' (chaves ! i) = Inr v2
           \<and> v1 \<le> v2"
proof -
  from assms(1) obtain va vp where va: "dict_get m (chaves ! i) = Inr va"
    and vp: "dict_get m (chaves ! (i - 1)) = Inr vp"
    by (auto simp: suavizar_passo_def entao_def Let_def split: sum.splits)
  show ?thesis
  proof (cases "va < vp")
    case True
    with assms(1) va vp have "m' = AList.update (chaves ! (i - 1)) ((va + vp) / 2)
        (AList.update (chaves ! i) ((va + vp) / 2) m)"
      by (simp add: suavizar_passo_def entao_def Let_def)
    with assms(2) have "dict_get m' (chaves ! (i - 1)) = Inr ((va + vp) / 2)"
      and "dict_get m' (chaves ! i) = Inr ((va + vp) / 2)"
      by (simp_all add: dict_get_update)
    then show ?thesis by blast
  next
    case False
    with assms(1) va vp have "m' = m"
      by (simp add: suavizar_passo_def entao_def Let_def)
    with va vp False show ?thesis by simp
  qed
qed

lemma sort_chaves_distintas: "distinct (map fst m) \<Longrightarrow> distinct (sort (map fst m))"
  by simp

lemma dois_elementos:
  fixes ks :: "int list"
  assumes "sorted ks" and "length ks \<le> 2" and "b1 \<in> set ks" and "b2 \<in> set ks" and "b1 < b2"
  shows "ks = [b1, b2]"
proof -
  from assms(2) consider "ks = []" | x where "ks = [x]" | x y where "ks = [x, y]"
    by (cases ks; cases "tl ks"; cases "tl (tl ks)") auto
  then show ?thesis
  proof cases
    case 1
    with assms(3) show ?thesis by simp
  next
    case 2
    with assms(3,4,5) show ?thesis by simp
  next
    case 3
    with assms(1,3,4,5) show ?thesis by auto
  qed
qed

lemma upt_ultimo: "2 \<le> n \<Longrightarrow> [1..<n] = [1..<n - 1] @ [n - 1]"
  by (cases n) (auto simp: numeral_2_eq_2)

lemma dict_get_chave: "dict_get m b = Inr v \<Longrightarrow> b \<in> fst ` set m"
  by (auto simp: dict_get_def split: option.splits dest!: map_of_SomeD intro: rev_image_eqI)

text \<open>
  What the single pass does guarantee. With at least 10 observations training raises
  nothing and installs a map; in that map the two highest bins are in non-decreasing
  order, and a map of at most two bins is non-decreasing throughout.
\<close>

lemma treinar_ultimo_par:
  assumes "10 \<le> length (pontos_x c)"
  shows "\<exists>m. treinar c = Inr (c\<lparr>mapa_calibracao := Some m, treinado := True\<rparr>)
    \<and> (let ks = sort (map fst m); n = length ks
       in (2 \<le> n \<longrightarrow>
             (\<exists>v1 v2. dict_get m (ks ! (n - 2)) = Inr v1 \<and> dict_get m (ks ! (n - 1)) = Inr v2
                \<and> v1 \<le> v2))
          \<and> (n \<le> 2 \<longrightarrow>
               (\<forall>b1 b2 v1 v2. dict_get m b1 = Inr v1 \<and> dict_get m b2 = Inr v2 \<and> b1 < b2
                  \<longrightarrow> v1 \<le> v2)))"
proof -
  let ?bins = "agrupar_bins [] (sort (zip (pontos_x c) (pontos_y c)))"
  have "\<forall>bv \<in> set ?bins. snd bv \<noteq> []" by (rule agrupar_bins_nao_vazios) simp
  then obtain mapa where mapa: "medias_bins [] ?bins = Inr mapa" and d: "distinct (map fst mapa)"
    using medias_bins_total [of ?bins "[]"] by auto
  define ks where "ks = sort (map fst mapa)"
  define n where "n = length ks"
  have sub: "set ks \<subseteq> fst ` set mapa" by (simp add: ks_def)
  have dk: "distinct ks" using d by (simp add: ks_def)
  have so: "sorted ks" by (simp add: ks_def)
  have "\<forall>i \<in> set [1..<n]. i < length ks" by (simp add: n_def)
  from suavizar_chaves [OF this sub] obtain m where
    m: "suavizar ks mapa [1..<n] = Inr m" and km: "map fst m = map fst mapa" by blast
  have tr: "treinar c = Inr (c\<lparr>mapa_calibracao := Some m, treinado := True\<rparr>)"
    using assms mapa m unfolding treinar_def entao_def Let_def ks_def n_def by simp
  have ks: "sort (map fst m) = ks" using km by (simp add: ks_def)
  have par: "\<exists>v1 v2. dict_get m (ks ! (n - 2)) = Inr v1 \<and> dict_get m (ks ! (n - 1)) = Inr v2
                \<and> v1 \<le> v2" if n2: "2 \<le> n"
  proof -
    from m upt_ultimo [OF n2] have "(case suavizar ks mapa [1..<n - 1] of Inl e \<Rightarrow> Inl e
                  | Inr m' \<Rightarrow> suavizar_passo ks m' (n - 1)) = Inr m"
      by (simp only: suavizar_snoc)
    then obtain m1 where p: "suavizar_passo ks m1 (n - 1) = Inr m"
      by (auto split: sum.splits)
    from n2 dk have "ks ! (n - 1 - 1) \<noteq> ks ! (n - 1)"
      by (simp add: nth_eq_iff_index_eq n_def)
    from suavizar_passo_ordena [OF p this] have "\<exists>v1 v2. dict_get m (ks ! (n - 1 - 1)) = Inr v1
      \<and> dict_get m (ks ! (n - 1)) = Inr v2 \<and> v1 \<le> v2" .
    moreover have "n - 1 - 1 = n - 2" by simp
    ultimately show ?thesis by simp
  qed
  have todo: "v1 \<le> v2" if n2: "n \<le> 2" and g1: "dict_get m b1 = Inr v1"
    and g2: "dict_get m b2 = Inr v2" and lt: "b1 < b2" for b1 b2 v1 v2
  proof -
    from g1 have "b1 \<in> fst ` set m" by (rule dict_get_chave)
    then have b1: "b1 \<in> set ks" using ks by (metis list.set_map set_sort)
    from g2 have "b2 \<in> fst ` set m" by (rule dict_get_chave)
    then have b2: "b2 \<in> set ks" using ks by (metis list.set_map set_sort)
    from n2 have "length ks \<le> 2" by (simp add: n_def)
    from dois_elementos [OF so this b1 b2 lt] have e: "ks = [b1, b2]" .
    then have n: "n = 2" by (simp add: n_def)
    from par n obtain w1 w2 where "dict_get m (ks ! 0) = Inr w1" "dict_get m (ks ! 1) = Inr w2" "w1 \<le> w2"
      by auto
    with e g1 g2 show ?thesis by simp
  qed
  show ?thesis
  proof (intro exI [of _ m] conjI)
    show "treinar c = Inr (c\<lparr>mapa_calibracao := Some m, treinado := True\<rparr>)" by (rule tr)
    show "let ks = sort (map fst m); n = length ks
       in (2 \<le> n \<longrightarrow>
             (\<exists>v1 v2. dict_get m (ks ! (n - 2)) = Inr v1 \<and> dict_get m (ks ! (n - 1)) = Inr v2
                \<and> v1 \<le> v2))
          \<and> (n \<le> 2 \<longrightarrow>
               (\<forall>b1 b2 v1 v2. dict_get m b1 = Inr v1 \<and> dict_get m b2 = Inr v2 \<and> b1 < b2
                  \<longrightarrow> v1 \<le> v2))"
      unfolding Let_def ks n_def [symmetric] using par todo by blast
  qed
qed

lemma treinar_calibrador_3_bins:
  "treinar calibrador_3_bins =
     Inr (calibrador_3_bins\<lparr>mapa_calibracao := Some [(0, 100), (5, 50), (10, 50)], treinado := True\<rparr>)"
  by (simp add: treinar_def calibrador_3_bins_def entao_def Let_def grupos_append_def
      bin_idx_de_def py_int_def suavizar_passo_def dict_get_def less_eq_prod_def less_prod_def
      upt_rec [of 1])

text \<open>
  Claim C1 says that after training on at least 10 observations the calibrated values are
  non-decreasing across ascending bins. The code evaluated at ten observations in three
  bins, with bin hit rates 100, 100 and 0: the pass leaves the first pair alone, then
  averages the second pair to 50, so the trained map gives 100 to bin 0 and 50 to bin 5.
\<close>

theorem treinar_tres_bins_nao_monotono:
  "10 \<le> length (pontos_x calibrador_3_bins)
   \<and> treinar calibrador_3_bins =
       Inr (calibrador_3_bins\<lparr>mapa_calibracao := Some [(0, 100), (5, 50), (10, 50)], treinado := True\<rparr>)
   \<and> dict_get [(0, 100), (5, 50), (10, 50 :: real)] (0 :: int) = Inr 100
   \<and> dict_get [(0, 100), (5, 50), (10, 50 :: real)] (5 :: int) = Inr 50
   \<and> (0 :: int) < 5 \<and> \<not> (100 :: real) \<le> 50"
  using treinar_calibrador_3_bins by (simp add: dict_get_def calibrador_3_bins_def)

end
